theory Spec2Isabelle
  imports Complex_Main
begin

section \<open>Python values, exceptions and effects\<close>

text \<open>
  The three assemblers (\<^verbatim>\<open>DCN\<close>, \<^verbatim>\<open>xDeepFM\<close>, \<^verbatim>\<open>FiBiNET\<close>) are Python classes built on
  collaborators that live outside the modelled files: \<^verbatim>\<open>BaseModel\<close>, the layers
  (\<^verbatim>\<open>DNN\<close>, \<^verbatim>\<open>CrossNet\<close>, \<^verbatim>\<open>CIN\<close>, \<^verbatim>\<open>SENETLayer\<close>, \<^verbatim>\<open>BilinearInteraction\<close>), the input
  helpers and the tensor framework. An exception the assembler raises itself is a
  constructor of \<open>error\<close>; an exception \<open>x\<close> coming out of a collaborator is passed on
  unchanged as \<open>Propagated x\<close>.
\<close>

datatype 'x error = NotImplementedError | IndexError | UnboundLocalError | Propagated 'x

text \<open>\<^verbatim>\<open>xs[-1]\<close>: the last element, \<^verbatim>\<open>IndexError\<close> on an empty sequence.\<close>

definition py_last :: "'a list \<Rightarrow> 'x error + 'a" where
  "py_last xs = (if xs = [] then Inl IndexError else Inr (last xs))"

text \<open>\<^verbatim>\<open>xs[:-1]\<close>: all but the last element; the empty sequence for an empty one.\<close>

definition py_init :: "'a list \<Rightarrow> 'a list" where
  "py_init xs = take (length xs - 1) xs"

text \<open>\<^verbatim>\<open>sum(xs)\<close> on Python integers: a left fold from 0.\<close>

definition py_sum :: "int list \<Rightarrow> int" where
  "py_sum xs = foldl (+) 0 xs"

text \<open>Sequencing of fallible construction steps: the first exception ends the constructor.\<close>

definition on_ok :: "'e + 'a \<Rightarrow> ('a \<Rightarrow> 'e + 'b) \<Rightarrow> 'e + 'b" where
  "on_ok r f = (case r of Inl e \<Rightarrow> Inl e | Inr a \<Rightarrow> f a)"

text \<open>
  A forward pass runs in a world \<open>'s\<close> (parameter tensors, random-number state, running
  statistics) that every collaborator call may read and change. A collaborator call is an
  \<open>effect\<close>; the assembler's own code is a \<open>run\<close>, which can also raise its own errors.
  The world reached when an exception is raised is kept.
\<close>

type_synonym ('s, 'x, 'a) effect = "'s \<Rightarrow> ('x + 'a) \<times> 's"
type_synonym ('s, 'x, 'a) run = "'s \<Rightarrow> ('x error + 'a) \<times> 's"

definition raise :: "'x error \<Rightarrow> ('s, 'x, 'a) run" where
  "raise e = (\<lambda>s. (Inl e, s))"

definition ret :: "'a \<Rightarrow> ('s, 'x, 'a) run" where
  "ret a = (\<lambda>s. (Inr a, s))"

definition call :: "('s, 'x, 'a) effect \<Rightarrow> ('s, 'x, 'a) run" where
  "call c = (\<lambda>s. case c s of (Inl x, s') \<Rightarrow> (Inl (Propagated x), s') | (Inr a, s') \<Rightarrow> (Inr a, s'))"

definition then_do :: "('s, 'x, 'a) run \<Rightarrow> ('a \<Rightarrow> ('s, 'x, 'b) run) \<Rightarrow> ('s, 'x, 'b) run" where
  "then_do m f = (\<lambda>s. case m s of (Inl e, s') \<Rightarrow> (Inl e, s') | (Inr a, s') \<Rightarrow> f a s')"

text \<open>\<open>yields c s a s'\<close>: started in world \<open>s\<close>, the call \<open>c\<close> returns \<open>a\<close> and leaves world \<open>s'\<close>.\<close>

definition yields :: "('s, 'x, 'a) effect \<Rightarrow> 's \<Rightarrow> 'a \<Rightarrow> 's \<Rightarrow> bool" where
  "yields c s a s' \<longleftrightarrow> c s = (Inr a, s')"


section \<open>Feature columns and constructed components\<close>

text \<open>
  A feature column is tested with \<^verbatim>\<open>isinstance(x, SparseFeat)\<close> and
  \<^verbatim>\<open>isinstance(x, DenseFeat)\<close>; a column of any other class passes neither test. Only the
  \<^verbatim>\<open>dimension\<close> of a dense column is read.
\<close>

datatype feat = SparseFeat | DenseFeat (dimension: int) | OtherFeat

fun is_SparseFeat :: "feat \<Rightarrow> bool" where
  "is_SparseFeat SparseFeat = True"
| "is_SparseFeat _ = False"

fun is_DenseFeat :: "feat \<Rightarrow> bool" where
  "is_DenseFeat (DenseFeat d) = True"
| "is_DenseFeat _ = False"

text \<open>
  A constructed collaborator object is described by the constructor call that made it,
  with the arguments that fix its shape:
  \<^verbatim>\<open>BaseModel.__init__(linear_feature_columns, dnn_feature_columns, embedding_size, dnn_hidden_units)\<close>,
  \<^verbatim>\<open>DNN(inputs_dim, hidden_units)\<close>, \<^verbatim>\<open>nn.Linear(in_features, out_features, bias=False)\<close>,
  \<^verbatim>\<open>CrossNet(input_feature_num, layer_num)\<close>, \<^verbatim>\<open>CIN(field_num, layer_size, split_half)\<close>,
  \<^verbatim>\<open>SENETLayer(filed_size, reduction_ratio)\<close>,
  \<^verbatim>\<open>BilinearInteraction(filed_size, embedding_size, bilinear_type)\<close>.
\<close>

datatype component =
    BaseModel "feat list" "feat list" int "int list"
  | DNN int "int list"
  | Linear int int
  | CrossNet int int
  | CIN int "int list" bool
  | SENETLayer int int
  | BilinearInteraction int int string

text \<open>
  What the constructors take from outside the modelled files: \<open>construct c\<close> is the
  exception the collaborator constructor \<open>c\<close> raises (\<open>None\<close> when it returns),
  \<open>base_compute_input_dim\<close> is \<^verbatim>\<open>BaseModel.compute_input_dim\<close>, \<open>len_embedding_dict\<close> is
  \<^verbatim>\<open>len(self.embedding_dict)\<close> after \<^verbatim>\<open>BaseModel.__init__\<close>, and \<open>self_call name\<close> is the
  exception raised by the inherited method call labelled \<open>name\<close>
  (\<^verbatim>\<open>add_regularization_loss\<close>, \<^verbatim>\<open>to\<close>).
\<close>

record 'x framework =
  construct :: "component \<Rightarrow> 'x option"
  base_compute_input_dim :: "feat list \<Rightarrow> int \<Rightarrow> int"
  len_embedding_dict :: "feat list \<Rightarrow> int"
  self_call :: "string \<Rightarrow> 'x option"

definition instantiate :: "'x framework \<Rightarrow> component \<Rightarrow> 'x error + component" where
  "instantiate fw c = (case construct fw c of Some x \<Rightarrow> Inl (Propagated x) | None \<Rightarrow> Inr c)"

definition invoke :: "'x framework \<Rightarrow> string \<Rightarrow> 'x error + unit" where
  "invoke fw name = (case self_call fw name of Some x \<Rightarrow> Inl (Propagated x) | None \<Rightarrow> Inr ())"

text \<open>
  \<open>modules\<close> is the registry of \<^verbatim>\<open>torch.nn.Module\<close>: assigning a module to an attribute
  registers it under the attribute's name, in assignment order. It lists the submodules
  the subclass constructor assigns.
\<close>

record Module =
  modules :: "(string \<times> component) list"


section \<open>DCN\<close>

record DCN = Module +
  dnn_hidden_units :: "int list"
  cross_num :: int

text \<open>
  \<^verbatim>\<open>DCN.__init__\<close> (dcn.py, lines 36-71). The chain of lines 56-61 binds
  \<^verbatim>\<open>dnn_linear_in_feature\<close> in three of four cases; in the fourth the name is unbound when
  line 63 reads it.
\<close>

definition DCN_init :: "'x framework \<Rightarrow> feat list \<Rightarrow> int \<Rightarrow> int \<Rightarrow> int list \<Rightarrow> 'x error + DCN" where
  "DCN_init fw dnn_feature_columns embedding_size cross_num' dnn_hidden_units' =
    on_ok (instantiate fw (BaseModel [] dnn_feature_columns embedding_size dnn_hidden_units')) (\<lambda>base.
    on_ok (instantiate fw (DNN (base_compute_input_dim fw dnn_feature_columns embedding_size)
                               dnn_hidden_units')) (\<lambda>dnn'.
    on_ok (if length dnn_hidden_units' > 0 \<and> cross_num' > 0 then
             on_ok (py_last dnn_hidden_units') (\<lambda>h.
               Inr (base_compute_input_dim fw dnn_feature_columns embedding_size + h))
           else if length dnn_hidden_units' > 0 then
             py_last dnn_hidden_units'
           else if cross_num' > 0 then
             Inr (base_compute_input_dim fw dnn_feature_columns embedding_size)
           else Inl UnboundLocalError) (\<lambda>dnn_linear_in_feature.
    on_ok (instantiate fw (Linear dnn_linear_in_feature 1)) (\<lambda>dnn_linear'.
    on_ok (instantiate fw (CrossNet (base_compute_input_dim fw dnn_feature_columns embedding_size)
                                    cross_num')) (\<lambda>crossnet'.
    on_ok (invoke fw ''add_regularization_loss(dnn)'') (\<lambda>_.
    on_ok (invoke fw ''add_regularization_loss(dnn_linear.weight)'') (\<lambda>_.
    on_ok (invoke fw ''add_regularization_loss(crossnet.kernels)'') (\<lambda>_.
    on_ok (invoke fw ''to(device)'') (\<lambda>_.
    Inr \<lparr>modules = [(''dnn'', dnn'), (''dnn_linear'', dnn_linear'), (''crossnet'', crossnet')],
         DCN.dnn_hidden_units = dnn_hidden_units',
         cross_num = cross_num'\<rparr>)))))))))"


section \<open>xDeepFM\<close>

record xDeepFM = Module +
  dnn_hidden_units :: "int list"
  cin_layer_size :: "int list"
  featuremap_num :: int

text \<open>
  \<^verbatim>\<open>xDeepFM.__init__\<close> (xdeepfm.py, lines 31-66). Line 47 reads
  \<^verbatim>\<open>dnn_hidden_units[-1]\<close>; lines 51-55 compute \<^verbatim>\<open>featuremap_num\<close>, the in-feature count
  of \<^verbatim>\<open>cin_linear\<close>, where \<^verbatim>\<open>//\<close> is floor division.
\<close>

definition xDeepFM_init ::
  "'x framework \<Rightarrow> feat list \<Rightarrow> feat list \<Rightarrow> int \<Rightarrow> int list \<Rightarrow> int list \<Rightarrow> bool \<Rightarrow> 'x error + xDeepFM" where
  "xDeepFM_init fw linear_feature_columns dnn_feature_columns embedding_size dnn_hidden_units'
       cin_layer_size' cin_split_half =
    on_ok (instantiate fw (BaseModel linear_feature_columns dnn_feature_columns embedding_size
                                     dnn_hidden_units')) (\<lambda>base.
    on_ok (instantiate fw (DNN (base_compute_input_dim fw dnn_feature_columns embedding_size)
                               dnn_hidden_units')) (\<lambda>dnn'.
    on_ok (py_last dnn_hidden_units') (\<lambda>h.
    on_ok (instantiate fw (Linear h 1)) (\<lambda>dnn_linear'.
    on_ok (if cin_split_half = True then
             on_ok (py_last cin_layer_size') (\<lambda>l. Inr (py_sum (py_init cin_layer_size') div 2 + l))
           else Inr (py_sum cin_layer_size')) (\<lambda>featuremap_num'.
    on_ok (instantiate fw (CIN (len_embedding_dict fw dnn_feature_columns) cin_layer_size'
                               cin_split_half)) (\<lambda>cin'.
    on_ok (instantiate fw (Linear featuremap_num' 1)) (\<lambda>cin_linear'.
    on_ok (invoke fw ''add_regularization_loss(dnn)'') (\<lambda>_.
    on_ok (invoke fw ''add_regularization_loss(dnn_linear.weight)'') (\<lambda>_.
    on_ok (invoke fw ''add_regularization_loss(cin)'') (\<lambda>_.
    on_ok (invoke fw ''to(device)'') (\<lambda>_.
    Inr \<lparr>modules = [(''dnn'', dnn'), (''dnn_linear'', dnn_linear'), (''cin'', cin'),
                    (''cin_linear'', cin_linear')],
         xDeepFM.dnn_hidden_units = dnn_hidden_units',
         cin_layer_size = cin_layer_size',
         featuremap_num = featuremap_num'\<rparr>)))))))))))"


section \<open>FiBiNET\<close>

record FiBiNET = Module +
  linear_feature_columns :: "feat list"
  dnn_feature_columns :: "feat list"
  filed_size :: int

text \<open>\<^verbatim>\<open>FiBiNET.compute_input_dim\<close> (fibinet.py, lines 60-69).\<close>

definition compute_input_dim :: "feat list \<Rightarrow> int \<Rightarrow> bool \<Rightarrow> int" where
  "compute_input_dim feature_columns embedding_size dense_only =
    (let sparse_feature_columns =
           (if length feature_columns \<noteq> 0 then filter is_SparseFeat feature_columns else []);
         dense_feature_columns =
           (if length feature_columns \<noteq> 0 then filter is_DenseFeat feature_columns else []);
         field_size = int (length sparse_feature_columns)
     in if dense_only then py_sum (map dimension dense_feature_columns)
        else field_size * (field_size - 1) * embedding_size
               + py_sum (map dimension dense_feature_columns))"

text \<open>\<^verbatim>\<open>FiBiNET.__init__\<close> (fibinet.py, lines 39-58). Line 58 reads \<^verbatim>\<open>dnn_hidden_units[-1]\<close>.\<close>

definition FiBiNET_init ::
  "'x framework \<Rightarrow> feat list \<Rightarrow> feat list \<Rightarrow> int \<Rightarrow> string \<Rightarrow> int \<Rightarrow> int list \<Rightarrow> 'x error + FiBiNET" where
  "FiBiNET_init fw linear_feature_columns' dnn_feature_columns' embedding_size bilinear_type
       reduction_ratio dnn_hidden_units' =
    on_ok (instantiate fw (BaseModel linear_feature_columns' dnn_feature_columns' embedding_size
                                     dnn_hidden_units')) (\<lambda>base.
    on_ok (instantiate fw (SENETLayer (len_embedding_dict fw dnn_feature_columns')
                                      reduction_ratio)) (\<lambda>SE'.
    on_ok (instantiate fw (BilinearInteraction (len_embedding_dict fw dnn_feature_columns')
                                               embedding_size bilinear_type)) (\<lambda>Bilinear'.
    on_ok (instantiate fw (DNN (compute_input_dim dnn_feature_columns' embedding_size False)
                               dnn_hidden_units')) (\<lambda>dnn'.
    on_ok (py_last dnn_hidden_units') (\<lambda>h.
    on_ok (instantiate fw (Linear h 1)) (\<lambda>dnn_linear'.
    Inr \<lparr>modules = [(''SE'', SE'), (''Bilinear'', Bilinear'), (''dnn'', dnn'),
                    (''dnn_linear'', dnn_linear')],
         linear_feature_columns = linear_feature_columns',
         dnn_feature_columns = dnn_feature_columns',
         filed_size = len_embedding_dict fw dnn_feature_columns'\<rparr>))))))"


section \<open>Forward passes\<close>

text \<open>
  The collaborators a forward pass calls, as the call sites use them. \<open>'t\<close> is the tensor
  type; \<^verbatim>\<open>+\<close> on tensors is the framework's element-wise addition, taken as the total
  operation \<open>+\<close> of \<open>'t\<close>. \<open>input_from_feature_columns\<close>, \<open>linear_model\<close> and \<open>out\<close> are
  inherited from \<^verbatim>\<open>BaseModel\<close>; \<open>torch_cat ts dim\<close> is \<^verbatim>\<open>torch.cat(ts, dim)\<close> and
  \<open>torch_split t size dim\<close> is \<^verbatim>\<open>torch.split(t, size, dim)\<close>.
\<close>

record ('s, 't, 'x) layers =
  input_from_feature_columns :: "'t \<Rightarrow> ('s, 'x, 't list \<times> 't list) effect"
  combined_dnn_input :: "'t list \<Rightarrow> 't list \<Rightarrow> ('s, 'x, 't) effect"
  linear_model :: "'t \<Rightarrow> ('s, 'x, 't) effect"
  dnn :: "'t \<Rightarrow> ('s, 'x, 't) effect"
  dnn_linear :: "'t \<Rightarrow> ('s, 'x, 't) effect"
  crossnet :: "'t \<Rightarrow> ('s, 'x, 't) effect"
  cin :: "'t \<Rightarrow> ('s, 'x, 't) effect"
  cin_linear :: "'t \<Rightarrow> ('s, 'x, 't) effect"
  SE :: "'t \<Rightarrow> ('s, 'x, 't) effect"
  Bilinear :: "'t \<Rightarrow> ('s, 'x, 't) effect"
  out :: "'t \<Rightarrow> ('s, 'x, 't) effect"
  torch_cat :: "'t list \<Rightarrow> int \<Rightarrow> ('s, 'x, 't) effect"
  torch_split :: "'t \<Rightarrow> int \<Rightarrow> int \<Rightarrow> ('s, 'x, 't list) effect"

text \<open>\<^verbatim>\<open>DCN.forward\<close> (dcn.py, lines 73-95).\<close>

definition DCN_forward :: "('s, 't, 'x) layers \<Rightarrow> DCN \<Rightarrow> 't \<Rightarrow> ('s, 'x, 't) run" where
  "DCN_forward env self X =
    then_do (call (input_from_feature_columns env X)) (\<lambda>(sparse_embedding_list, dense_value_list).
    then_do (call (combined_dnn_input env sparse_embedding_list dense_value_list)) (\<lambda>dnn_input.
    then_do
      (if length (DCN.dnn_hidden_units self) > 0 \<and> cross_num self > 0 then
         then_do (call (dnn env dnn_input)) (\<lambda>deep_out.
         then_do (call (crossnet env dnn_input)) (\<lambda>cross_out.
         then_do (call (torch_cat env [cross_out, deep_out] (- 1))) (\<lambda>stack_out.
         call (dnn_linear env stack_out))))
       else if length (DCN.dnn_hidden_units self) > 0 then
         then_do (call (dnn env dnn_input)) (\<lambda>deep_out.
         call (dnn_linear env deep_out))
       else if cross_num self > 0 then
         then_do (call (crossnet env dnn_input)) (\<lambda>cross_out.
         call (dnn_linear env cross_out))
       else raise NotImplementedError) (\<lambda>final_logit.
    call (out env final_logit))))"

text \<open>\<^verbatim>\<open>xDeepFM.forward\<close> (xdeepfm.py, lines 68-96).\<close>

definition xDeepFM_forward :: "('s, 't::plus, 'x) layers \<Rightarrow> xDeepFM \<Rightarrow> 't \<Rightarrow> ('s, 'x, 't) run" where
  "xDeepFM_forward env self X =
    then_do (call (input_from_feature_columns env X)) (\<lambda>(sparse_embedding_list, dense_value_list).
    then_do (call (linear_model env X)) (\<lambda>linear_logit.
    then_do (call (torch_cat env sparse_embedding_list 1)) (\<lambda>cin_input.
    then_do (call (cin env cin_input)) (\<lambda>cin_output.
    then_do (call (cin_linear env cin_output)) (\<lambda>cin_logit.
    then_do (call (combined_dnn_input env sparse_embedding_list dense_value_list)) (\<lambda>dnn_input.
    then_do (call (dnn env dnn_input)) (\<lambda>dnn_output.
    then_do (call (dnn_linear env dnn_output)) (\<lambda>dnn_logit.
    then_do
      (if length (xDeepFM.dnn_hidden_units self) = 0 \<and> length (cin_layer_size self) = 0 then
         ret linear_logit
       else if length (xDeepFM.dnn_hidden_units self) = 0 \<and> length (cin_layer_size self) > 0 then
         ret (linear_logit + cin_logit)
       else if length (xDeepFM.dnn_hidden_units self) > 0 \<and> length (cin_layer_size self) = 0 then
         ret (linear_logit + dnn_logit)
       else if length (xDeepFM.dnn_hidden_units self) > 0 \<and> length (cin_layer_size self) > 0 then
         ret (linear_logit + dnn_logit + cin_logit)
       else raise NotImplementedError) (\<lambda>final_logit.
    call (out env final_logit))))))))))"

text \<open>\<^verbatim>\<open>FiBiNET.forward\<close> (fibinet.py, lines 71-97).\<close>

definition FiBiNET_forward :: "('s, 't::plus, 'x) layers \<Rightarrow> FiBiNET \<Rightarrow> 't \<Rightarrow> ('s, 'x, 't) run" where
  "FiBiNET_forward env self X =
    then_do (call (input_from_feature_columns env X)) (\<lambda>(sparse_embedding_list, dense_value_list).
    then_do (call (torch_cat env sparse_embedding_list 1)) (\<lambda>sparse_embedding_input.
    then_do (call (SE env sparse_embedding_input)) (\<lambda>senet_output.
    then_do (call (Bilinear env senet_output)) (\<lambda>senet_bilinear_out.
    then_do (call (Bilinear env sparse_embedding_input)) (\<lambda>bilinear_out.
    then_do (call (linear_model env X)) (\<lambda>linear_logit.
    then_do (call (torch_cat env [senet_bilinear_out, bilinear_out] 1)) (\<lambda>cat_out.
    then_do (call (torch_split env cat_out 1 1)) (\<lambda>temp.
    then_do (call (combined_dnn_input env temp dense_value_list)) (\<lambda>dnn_input.
    then_do (call (dnn env dnn_input)) (\<lambda>dnn_output.
    then_do (call (dnn_linear env dnn_output)) (\<lambda>dnn_logit.
    then_do
      (if length (linear_feature_columns self) > 0 \<and> length (dnn_feature_columns self) > 0 then
         ret (linear_logit + dnn_logit)
       else if length (linear_feature_columns self) = 0 then
         ret dnn_logit
       else if length (dnn_feature_columns self) = 0 then
         ret linear_logit
       else raise NotImplementedError) (\<lambda>final_logit.
    call (out env final_logit)))))))))))))"

text \<open>
  The left-to-right sum of a first logit and the further ones, as \<^verbatim>\<open>a + b + c\<close> evaluates.
\<close>

definition sum_from :: "'t::plus \<Rightarrow> 't list \<Rightarrow> 't" where
  "sum_from x xs = foldl (+) x xs"



text \<open>
  \<open>keeps params m\<close> is the first half of \<open>frame\<close> alone: the run \<open>m\<close> leaves the part
  \<open>params\<close> of the world as it was, whatever its result depends on. \<open>keeps_parameters\<close>
  says so of every collaborator call.
\<close>

definition keeps :: "('s \<Rightarrow> 'p) \<Rightarrow> ('s \<Rightarrow> 'r \<times> 's) \<Rightarrow> bool" where
  "keeps params m \<longleftrightarrow> (\<forall>s. params (snd (m s)) = params s)"




section \<open>Layers modelled from the specification\<close>

text \<open>
  Vectors are lists of reals: the arithmetic is the exact one of the specification's
  formulas, not the rounded arithmetic of the tensor framework.
\<close>

definition dot :: "real list \<Rightarrow> real list \<Rightarrow> real" where
  "dot w x = sum_list (map2 (*) w x)"

definition scale :: "real list \<Rightarrow> real \<Rightarrow> real list" where
  "scale x c = map (\<lambda>v. v * c) x"

definition vadd :: "real list \<Rightarrow> real list \<Rightarrow> real list" where
  "vadd x y = map2 (+) x y"

definition hadamard :: "real list \<Rightarrow> real list \<Rightarrow> real list" where
  "hadamard x y = map2 (*) x y"

text \<open>
  Modelled from the spec: the cross network (\<^verbatim>\<open>CrossNet\<close> of the layers package, which is
  not among the modelled files). Section 4.1: the state \<open>x_l\<close> starts as \<open>x0\<close>, and layer
  \<open>l\<close> computes \<open>x_l = x0 * (w_l \<cdot> x_{l-1}) + b_l + x_{l-1}\<close>, with \<open>\<cdot>\<close> a dot product giving
  one scalar for the row and \<open>*\<close> the scaling of \<open>x0\<close> by that scalar. A layer is its pair
  \<open>(w_l, b_l)\<close>; the output is \<open>x_L\<close>.
\<close>

definition cross_layer :: "real list \<Rightarrow> real list \<times> real list \<Rightarrow> real list \<Rightarrow> real list" where
  "cross_layer x0 wb xl = vadd (vadd (scale x0 (dot (fst wb) xl)) (snd wb)) xl"

fun cross_loop :: "real list \<Rightarrow> real list \<Rightarrow> (real list \<times> real list) list \<Rightarrow> real list" where
  "cross_loop x0 xl [] = xl"
| "cross_loop x0 xl (wb # layers) = cross_loop x0 (cross_layer x0 wb xl) layers"

definition CrossNet_forward :: "(real list \<times> real list) list \<Rightarrow> real list \<Rightarrow> real list" where
  "CrossNet_forward layers x0 = cross_loop x0 x0 layers"

text \<open>
  Modelled from the spec: the bilinear interaction layer (\<^verbatim>\<open>BilinearInteraction\<close> of the
  layers package, which is not among the modelled files). Section 4.2: for every unordered
  pair of fields \<open>i < j\<close> the product \<open>p_{i,j} = (v_i \<cdot> W) \<odot> v_j\<close>, a learned linear transform
  of \<open>v_i\<close> multiplied element-wise with \<open>v_j\<close>, all concatenated along the feature axis. The
  policy chooses \<open>W\<close>: one shared matrix (\<open>all\<close>), one matrix per field, applied to the
  first field of a pair (\<open>each\<close>), or one matrix per pair (\<open>interaction\<close>).
\<close>

datatype bilinear_weights =
    W_all "real list list"
  | W_each "real list list list"
  | W_interaction "real list list list"

definition transform :: "real list list \<Rightarrow> real list \<Rightarrow> real list" where
  "transform W v = map (\<lambda>row. dot row v) W"

fun combinations2 :: "'a list \<Rightarrow> ('a \<times> 'a) list" where
  "combinations2 [] = []"
| "combinations2 (x # xs) = map (Pair x) xs @ combinations2 xs"

fun BilinearInteraction_forward :: "bilinear_weights \<Rightarrow> real list list \<Rightarrow> real list" where
  "BilinearInteraction_forward (W_all W) vs =
     concat (map (\<lambda>(vi, vj). hadamard (transform W vi) vj) (combinations2 vs))"
| "BilinearInteraction_forward (W_each Ws) vs =
     concat (map (\<lambda>((vi, Wi), (vj, Wj)). hadamard (transform Wi vi) vj) (combinations2 (zip vs Ws)))"
| "BilinearInteraction_forward (W_interaction Ws) vs =
     concat (map (\<lambda>((vi, vj), W). hadamard (transform W vi) vj) (zip (combinations2 vs) Ws))"

text \<open>
  The weights a policy owns for \<open>F\<close> fields of dimension \<open>E\<close>: square \<open>E \<times> E\<close> matrices, one
  for \<open>all\<close>, \<open>F\<close> for \<open>each\<close>, \<open>F * (F - 1) / 2\<close> for \<open>interaction\<close>.
\<close>

definition square :: "nat \<Rightarrow> real list list \<Rightarrow> bool" where
  "square E W \<longleftrightarrow> length W = E \<and> list_all (\<lambda>row. length row = E) W"

fun parameter_count :: "bilinear_weights \<Rightarrow> nat" where
  "parameter_count (W_all W) = 1"
| "parameter_count (W_each Ws) = length Ws"
| "parameter_count (W_interaction Ws) = length Ws"

fun well_shaped :: "nat \<Rightarrow> nat \<Rightarrow> bilinear_weights \<Rightarrow> bool" where
  "well_shaped F E (W_all W) \<longleftrightarrow> square E W"
| "well_shaped F E (W_each Ws) \<longleftrightarrow> length Ws = F \<and> list_all (square E) Ws"
| "well_shaped F E (W_interaction Ws) \<longleftrightarrow> length Ws = F * (F - 1) div 2 \<and> list_all (square E) Ws"

text \<open>
  A tensor whose first axis is the batch: a list of rows of a common width, the further
  axes flattened. \<^verbatim>\<open>+\<close> adds two tensors of the same shape element by element. For
  operands of different shapes the framework broadcasts or raises; their sum is left
  unspecified here, so that nothing is proved about it.
\<close>

datatype tensor = Tensor (width: nat) (rows: "real list list")

definition well_formed :: "tensor \<Rightarrow> bool" where
  "well_formed t \<longleftrightarrow> list_all (\<lambda>row. length row = width t) (rows t)"

definition batch :: "tensor \<Rightarrow> nat" where
  "batch t = length (rows t)"

instantiation tensor :: plus
begin

definition plus_tensor :: "tensor \<Rightarrow> tensor \<Rightarrow> tensor" where
  "plus_tensor a b =
     (if well_formed a \<and> well_formed b \<and> batch a = batch b \<and> width a = width b
      then Tensor (width a) (map2 vadd (rows a) (rows b))
      else undefined)"

instance ..

end

text \<open>
  Modelled from the spec: the output transform (\<^verbatim>\<open>self.out\<close>, the prediction layer that
  \<^verbatim>\<open>BaseModel\<close> builds from \<^verbatim>\<open>task\<close>; not among the modelled files). Section 4.5: sigmoid
  for binary classification, identity for regression, applied to every logit.
\<close>

definition sigmoid :: "real \<Rightarrow> real" where
  "sigmoid x = 1 / (1 + exp (- x))"

definition PredictionLayer :: "string \<Rightarrow> tensor \<Rightarrow> tensor" where
  "PredictionLayer task z =
     (if task = ''binary'' then Tensor (width z) (map (map sigmoid) (rows z)) else z)"

text \<open>\<open>scalar_per_row n z\<close>: the tensor \<open>z\<close> has shape \<open>(n, 1)\<close>, one scalar for each of \<open>n\<close> rows.\<close>

definition scalar_per_row :: "nat \<Rightarrow> tensor \<Rightarrow> bool" where
  "scalar_per_row n z \<longleftrightarrow> well_formed z \<and> width z = 1 \<and> batch z = n"

definition in_unit_interval :: "tensor \<Rightarrow> bool" where
  "in_unit_interval z \<longleftrightarrow> list_all (list_all (\<lambda>v. 0 \<le> v \<and> v \<le> 1)) (rows z)"

text \<open>
  \<open>batch_preserving n env\<close>: on a batch of \<open>n\<close> rows every collaborator keeps the batch
  axis. A layer given \<open>n\<close> rows returns \<open>n\<close> rows; the logit-producing layers
  (\<^verbatim>\<open>dnn_linear\<close> and \<^verbatim>\<open>cin_linear\<close>, built as \<^verbatim>\<open>nn.Linear(_, 1)\<close>, and
  \<^verbatim>\<open>linear_model\<close>) return one scalar for each of them; concatenating or splitting
  tensors of \<open>n\<close> rows along axis \<open>1\<close> or \<open>-1\<close> gives tensors of \<open>n\<close> rows.
\<close>

definition batch_preserving :: "nat \<Rightarrow> ('s, tensor, 'x) layers \<Rightarrow> bool" where
  "batch_preserving n env \<longleftrightarrow>
     (\<forall>X s sp de s'. batch X = n \<and> yields (input_from_feature_columns env X) s (sp, de) s' \<longrightarrow>
        list_all (\<lambda>t. batch t = n) (sp @ de)) \<and>
     (\<forall>sp de s z s'. list_all (\<lambda>t. batch t = n) (sp @ de) \<and>
        yields (combined_dnn_input env sp de) s z s' \<longrightarrow> batch z = n) \<and>
     (\<forall>x s z s'. batch x = n \<and> yields (linear_model env x) s z s' \<longrightarrow> scalar_per_row n z) \<and>
     (\<forall>x s z s'. batch x = n \<and> yields (dnn env x) s z s' \<longrightarrow> batch z = n) \<and>
     (\<forall>x s z s'. batch x = n \<and> yields (dnn_linear env x) s z s' \<longrightarrow> scalar_per_row n z) \<and>
     (\<forall>x s z s'. batch x = n \<and> yields (crossnet env x) s z s' \<longrightarrow> batch z = n) \<and>
     (\<forall>x s z s'. batch x = n \<and> yields (cin env x) s z s' \<longrightarrow> batch z = n) \<and>
     (\<forall>x s z s'. batch x = n \<and> yields (cin_linear env x) s z s' \<longrightarrow> scalar_per_row n z) \<and>
     (\<forall>x s z s'. batch x = n \<and> yields (SE env x) s z s' \<longrightarrow> batch z = n) \<and>
     (\<forall>x s z s'. batch x = n \<and> yields (Bilinear env x) s z s' \<longrightarrow> batch z = n) \<and>
     (\<forall>ts d s z s'. (d = 1 \<or> d = - 1) \<and> list_all (\<lambda>t. batch t = n) ts \<and>
        yields (torch_cat env ts d) s z s' \<longrightarrow> batch z = n) \<and>
     (\<forall>x k d s ts s'. (d = 1 \<or> d = - 1) \<and> batch x = n \<and>
        yields (torch_split env x k d) s ts s' \<longrightarrow> list_all (\<lambda>t. batch t = n) ts)"



section \<open>Concrete collaborators for evaluation\<close>

text \<open>
  A framework in which every collaborator constructor and inherited call returns, with one
  embedding per sparse column and the input width \<open>F * E\<close> plus the dense dimensions.
\<close>

definition plain_framework :: "unit framework" where
  "plain_framework =
     \<lparr>construct = (\<lambda>c. None),
      base_compute_input_dim = (\<lambda>cols E.
         int (length (filter is_SparseFeat cols)) * E + py_sum (map dimension (filter is_DenseFeat cols))),
      len_embedding_dict = (\<lambda>cols. int (length (filter is_SparseFeat cols))),
      self_call = (\<lambda>n. None)\<rparr>"

text \<open>
  Layers over one-number tensors. The world is a pair of a parameter and a count of the
  calls made so far: every layer reads the parameter and increments the count.
\<close>

definition demo_layers :: "(int \<times> nat, int, unit) layers" where
  "demo_layers =
     \<lparr>input_from_feature_columns = (\<lambda>X s. (Inr ([X, X + 1], [X + 2]), (fst s, Suc (snd s)))),
      combined_dnn_input = (\<lambda>sp de s. (Inr (sum_list sp + sum_list de), (fst s, Suc (snd s)))),
      linear_model = (\<lambda>x s. (Inr (fst s * x), (fst s, Suc (snd s)))),
      dnn = (\<lambda>x s. (Inr (fst s * x + 1), (fst s, Suc (snd s)))),
      dnn_linear = (\<lambda>x s. (Inr (2 * x), (fst s, Suc (snd s)))),
      crossnet = (\<lambda>x s. (Inr (x * x + x), (fst s, Suc (snd s)))),
      cin = (\<lambda>x s. (Inr (x * x), (fst s, Suc (snd s)))),
      cin_linear = (\<lambda>x s. (Inr (3 * x), (fst s, Suc (snd s)))),
      SE = (\<lambda>x s. (Inr (fst s * x), (fst s, Suc (snd s)))),
      Bilinear = (\<lambda>x s. (Inr (x * x), (fst s, Suc (snd s)))),
      out = (\<lambda>x s. (Inr x, (fst s, Suc (snd s)))),
      torch_cat = (\<lambda>ts d s. (Inr (sum_list ts), (fst s, Suc (snd s)))),
      torch_split = (\<lambda>x n d s. (Inr [x], (fst s, Suc (snd s))))\<rparr>"


text \<open>
  Layers over tensors that keep the batch axis, with the binary prediction layer as output
  transform: every logit-producing layer returns a zero for each row of its input, the
  other layers return their (first) input.
\<close>

definition zero_logits :: "tensor \<Rightarrow> tensor" where
  "zero_logits x = Tensor 1 (map (\<lambda>row. [0]) (rows x))"

definition first_of :: "tensor list \<Rightarrow> unit + tensor" where
  "first_of ts = (case ts of [] \<Rightarrow> Inl () | t # _ \<Rightarrow> Inr t)"

definition binary_layers :: "(nat, tensor, unit) layers" where
  "binary_layers =
     \<lparr>input_from_feature_columns = (\<lambda>X s. (Inr ([X], [X]), Suc s)),
      combined_dnn_input = (\<lambda>sp de s. (first_of (sp @ de), Suc s)),
      linear_model = (\<lambda>x s. (Inr (zero_logits x), Suc s)),
      dnn = (\<lambda>x s. (Inr x, Suc s)),
      dnn_linear = (\<lambda>x s. (Inr (zero_logits x), Suc s)),
      crossnet = (\<lambda>x s. (Inr x, Suc s)),
      cin = (\<lambda>x s. (Inr x, Suc s)),
      cin_linear = (\<lambda>x s. (Inr (zero_logits x), Suc s)),
      SE = (\<lambda>x s. (Inr x, Suc s)),
      Bilinear = (\<lambda>x s. (Inr x, Suc s)),
      out = (\<lambda>z s. (Inr (PredictionLayer ''binary'' z), s)),
      torch_cat = (\<lambda>ts d s. (first_of ts, Suc s)),
      torch_split = (\<lambda>x k d s. (Inr [x], Suc s))\<rparr>"



section \<open>Basic facts\<close>

lemma on_ok_Inr_iff: "on_ok r f = Inr b \<longleftrightarrow> (\<exists>a. r = Inr a \<and> f a = Inr b)"
  by (cases r) (simp_all add: on_ok_def)

lemma instantiate_Inr_iff: "instantiate fw c = Inr d \<longleftrightarrow> construct fw c = None \<and> d = c"
  by (auto simp: instantiate_def split: option.splits)

lemma invoke_Inr_iff: "invoke fw name = Inr u \<longleftrightarrow> self_call fw name = None"
  by (simp add: invoke_def split: option.splits)

lemma py_last_Inr_iff: "py_last xs = Inr h \<longleftrightarrow> xs \<noteq> [] \<and> h = last xs"
  by (auto simp: py_last_def)

lemma py_sum_sum_list: "py_sum xs = sum_list xs"
proof -
  have "foldl (+) a xs = a + sum_list xs" for a :: int
    by (induction xs arbitrary: a) simp_all
  then show ?thesis by (simp add: py_sum_def)
qed

lemma py_sum_nth: "py_sum xs = (\<Sum>k = 0..<length xs. xs ! k)"
  by (simp add: py_sum_sum_list sum_list_sum_nth)

lemma py_sum_py_init: "py_sum (py_init xs) = (\<Sum>k = 0..<length xs - 1. xs ! k)"
  by (simp add: py_sum_nth py_init_def)


section \<open>Construction of xDeepFM\<close>

lemma xDeepFM_init_Inr:
  assumes "xDeepFM_init fw lcols dcols E hs H sh = Inr m"
  shows "hs \<noteq> []" and "sh \<Longrightarrow> H \<noteq> []"
    and "featuremap_num m = (if sh then py_sum (py_init H) div 2 + last H else py_sum H)"
    and "xDeepFM.dnn_hidden_units m = hs" and "cin_layer_size m = H"
    and "modules m = [(''dnn'', DNN (base_compute_input_dim fw dcols E) hs),
                      (''dnn_linear'', Linear (last hs) 1),
                      (''cin'', CIN (len_embedding_dict fw dcols) H sh),
                      (''cin_linear'', Linear (featuremap_num m) 1)]"
  using assms
  by (auto simp: xDeepFM_init_def on_ok_Inr_iff instantiate_Inr_iff invoke_Inr_iff py_last_Inr_iff
           split: if_splits)

lemma xDeepFM_init_returns:
  assumes "construct fw = (\<lambda>c. None)" and "self_call fw = (\<lambda>n. None)"
    and "hs \<noteq> []" and "sh \<longrightarrow> H \<noteq> []"
  shows "\<exists>m. xDeepFM_init fw lcols dcols E hs H sh = Inr m"
  using assms
  by (simp add: xDeepFM_init_def on_ok_def instantiate_def invoke_def py_last_def)

text \<open>
  C2. For xDeepFM with the CIN layer-size schedule \<open>H\<close> of \<open>K = length H\<close> layers: when
  \<^verbatim>\<open>cin_split_half\<close> is enabled and \<open>K \<ge> 2\<close>, the constructed model's \<^verbatim>\<open>featuremap_num\<close>
  is the sum of the first \<open>K - 1\<close> sizes, halved (\<^verbatim>\<open>//\<close>: the integer half, rounded down),
  plus the last size; when it is disabled, it is the sum of all sizes. In both cases it
  is the in-feature count of the registered \<^verbatim>\<open>cin_linear\<close>. The constructor does return
  a model when \<^verbatim>\<open>dnn_hidden_units\<close> is non-empty, the schedule is non-empty or the split is
  disabled, and the collaborators return.
\<close>

theorem xDeepFM_featuremap_num:
  "(xDeepFM_init fw lcols dcols E hs H True = Inr m \<and> 2 \<le> length H \<longrightarrow>
      featuremap_num m = (\<Sum>k = 0..<length H - 1. H ! k) div 2 + H ! (length H - 1) \<and>
      map_of (modules m) ''cin_linear'' = Some (Linear (featuremap_num m) 1)) \<and>
   (xDeepFM_init fw lcols dcols E hs H False = Inr m' \<longrightarrow>
      featuremap_num m' = (\<Sum>k = 0..<length H. H ! k) \<and>
      map_of (modules m') ''cin_linear'' = Some (Linear (featuremap_num m') 1)) \<and>
   (construct fw = (\<lambda>c. None) \<and> self_call fw = (\<lambda>n. None) \<and> hs \<noteq> [] \<and> (sh \<longrightarrow> H \<noteq> []) \<longrightarrow>
      (\<exists>m. xDeepFM_init fw lcols dcols E hs H sh = Inr m))"
proof (intro conjI impI)
  assume a: "xDeepFM_init fw lcols dcols E hs H True = Inr m \<and> 2 \<le> length H"
  then have i: "xDeepFM_init fw lcols dcols E hs H True = Inr m" and "H \<noteq> []"
    by auto
  then have "last H = H ! (length H - 1)"
    by (simp add: last_conv_nth)
  with xDeepFM_init_Inr(3) [OF i]
  show "featuremap_num m = (\<Sum>k = 0..<length H - 1. H ! k) div 2 + H ! (length H - 1)"
    by (simp add: py_sum_py_init)
  from xDeepFM_init_Inr(6) [OF i]
  show "map_of (modules m) ''cin_linear'' = Some (Linear (featuremap_num m) 1)"
    by simp
next
  assume i: "xDeepFM_init fw lcols dcols E hs H False = Inr m'"
  from xDeepFM_init_Inr(3) [OF i] show "featuremap_num m' = (\<Sum>k = 0..<length H. H ! k)"
    by (simp add: py_sum_nth)
  from xDeepFM_init_Inr(6) [OF i]
  show "map_of (modules m') ''cin_linear'' = Some (Linear (featuremap_num m') 1)"
    by simp
next
  assume "construct fw = (\<lambda>c. None) \<and> self_call fw = (\<lambda>n. None) \<and> hs \<noteq> [] \<and> (sh \<longrightarrow> H \<noteq> [])"
  then show "\<exists>m. xDeepFM_init fw lcols dcols E hs H sh = Inr m"
    by (simp add: xDeepFM_init_returns)
qed

theorem xDeepFM_featuremap_num_witness:
  "(\<exists>m. xDeepFM_init plain_framework [SparseFeat, SparseFeat] [SparseFeat, SparseFeat] 4
           [256, 256] [4, 4] True = Inr m \<and> featuremap_num m = 6) \<and>
   (\<exists>m. xDeepFM_init plain_framework [SparseFeat, SparseFeat] [SparseFeat, SparseFeat] 4
           [256, 256] [4, 4] False = Inr m \<and> featuremap_num m = 8)"
proof -
  let ?cols = "[SparseFeat, SparseFeat]"
  have ret: "\<exists>m. xDeepFM_init plain_framework ?cols ?cols 4 [256, 256] [4, 4] sh = Inr m" for sh
    using xDeepFM_featuremap_num [of plain_framework ?cols ?cols 4 "[256, 256]" "[4, 4]" _ _ sh]
    by (simp add: plain_framework_def)
  from ret [of True] obtain m
    where m: "xDeepFM_init plain_framework ?cols ?cols 4 [256, 256] [4, 4] True = Inr m" ..
  from ret [of False] obtain m'
    where m': "xDeepFM_init plain_framework ?cols ?cols 4 [256, 256] [4, 4] False = Inr m'" ..
  have "featuremap_num m = 6"
    using m xDeepFM_featuremap_num [of plain_framework ?cols ?cols 4 "[256, 256]" "[4, 4]" m m']
    by simp
  moreover have "featuremap_num m' = 8"
    using m' xDeepFM_featuremap_num [of plain_framework ?cols ?cols 4 "[256, 256]" "[4, 4]" m m']
    by (simp add: numeral_2_eq_2)
  ultimately show ?thesis using m m' by simp
qed


section \<open>Who raises what\<close>

lemma call_not_own: "fst (call c s) \<noteq> Inl NotImplementedError"
  by (simp add: call_def split: prod.splits sum.splits)

lemma ret_not_own: "fst (ret a s) \<noteq> Inl NotImplementedError"
  by (simp add: ret_def)

lemma then_do_own:
  "fst (then_do m f s) = Inl NotImplementedError \<longleftrightarrow>
     fst (m s) = Inl NotImplementedError \<or>
     (\<exists>a s'. m s = (Inr a, s') \<and> fst (f a s') = Inl NotImplementedError)"
  by (auto simp: then_do_def split: prod.splits sum.splits)

lemma call_Inr_iff: "call c s = (Inr a, s') \<longleftrightarrow> yields c s a s'"
  by (auto simp: call_def yields_def split: prod.splits sum.splits)

lemma then_do_yields: "yields c s a s' \<Longrightarrow> then_do (call c) f s = f a s'"
  by (simp add: then_do_def call_def yields_def)

lemma then_do_ret: "then_do (ret a) f = f a"
  by (simp add: then_do_def ret_def)

lemma DCN_forward_NotImplementedError:
  "fst (DCN_forward env self X s) = Inl NotImplementedError \<longleftrightarrow>
     DCN.dnn_hidden_units self = [] \<and> cross_num self \<le> 0 \<and>
     (\<exists>sp de s1 x s2. yields (input_from_feature_columns env X) s (sp, de) s1 \<and>
                     yields (combined_dnn_input env sp de) s1 x s2)"
  by (auto simp: DCN_forward_def then_do_own call_not_own call_Inr_iff raise_def) blast+

lemma xDeepFM_forward_no_NotImplementedError:
  "fst (xDeepFM_forward env self X s) \<noteq> Inl NotImplementedError"
  by (auto simp: xDeepFM_forward_def then_do_own call_not_own ret_not_own)

lemma FiBiNET_forward_no_NotImplementedError:
  "fst (FiBiNET_forward env self X s) \<noteq> Inl NotImplementedError"
  by (auto simp: FiBiNET_forward_def then_do_own call_not_own ret_not_own)

lemma DCN_forward_without_crossnet:
  "cross_num self \<le> 0 \<Longrightarrow> DCN_forward (env\<lparr>crossnet := c\<rparr>) self X = DCN_forward env self X"
  by (simp add: DCN_forward_def cong: if_cong)

lemma DCN_init_Inr:
  assumes "DCN_init fw cols E cn hs = Inr m"
  shows "hs \<noteq> [] \<or> cn > 0"
    and "DCN.dnn_hidden_units m = hs" and "cross_num m = cn"
    and "modules m = [(''dnn'', DNN (base_compute_input_dim fw cols E) hs),
                      (''dnn_linear'', Linear (if hs \<noteq> [] \<and> cn > 0 then base_compute_input_dim fw cols E + last hs
                                               else if hs \<noteq> [] then last hs else base_compute_input_dim fw cols E) 1),
                      (''crossnet'', CrossNet (base_compute_input_dim fw cols E) cn)]"
  using assms
  by (auto simp: DCN_init_def on_ok_Inr_iff instantiate_Inr_iff invoke_Inr_iff py_last_Inr_iff
           split: if_splits)

lemma DCN_init_unbound:
  "construct fw = (\<lambda>c. None) \<Longrightarrow> hs = [] \<Longrightarrow> cn \<le> 0 \<Longrightarrow> DCN_init fw cols E cn hs = Inl UnboundLocalError"
  by (simp add: DCN_init_def on_ok_def instantiate_def)









lemma xDeepFM_forward_only_linear:
  assumes "xDeepFM.dnn_hidden_units self = []" and "cin_layer_size self = []"
    and "yields (input_from_feature_columns env X) s0 (sparse, dense) s1"
    and "yields (linear_model env X) s1 linear_logit s2"
    and "yields (torch_cat env sparse 1) s2 cin_input s3"
    and "yields (cin env cin_input) s3 cin_output s4"
    and "yields (cin_linear env cin_output) s4 cin_logit s5"
    and "yields (combined_dnn_input env sparse dense) s5 dnn_input s6"
    and "yields (dnn env dnn_input) s6 dnn_output s7"
    and "yields (dnn_linear env dnn_output) s7 dnn_logit s8"
  shows "xDeepFM_forward env self X s0 = call (out env linear_logit) s8"
  using assms by (simp add: xDeepFM_forward_def then_do_yields then_do_ret)

text \<open>
  C1 (amended). Of the three forward passes only \<^verbatim>\<open>DCN.forward\<close> raises
  \<^verbatim>\<open>NotImplementedError\<close>, and it does so exactly when \<^verbatim>\<open>dnn_hidden_units\<close> is empty and
  \<^verbatim>\<open>cross_num\<close> is not positive, once its two input collaborators have returned.
  \<^verbatim>\<open>xDeepFM.forward\<close> and \<^verbatim>\<open>FiBiNET.forward\<close> never raise it: with empty
  \<^verbatim>\<open>dnn_hidden_units\<close> and empty \<^verbatim>\<open>cin_layer_size\<close>, \<^verbatim>\<open>xDeepFM.forward\<close> takes its
  linear-only branch and returns the output transform of the linear logit.
\<close>

theorem forward_NotImplementedError:
  "(fst (DCN_forward env self X s) = Inl NotImplementedError \<longleftrightarrow>
      DCN.dnn_hidden_units self = [] \<and> cross_num self \<le> 0 \<and>
      (\<exists>sp de s1 x s2. yields (input_from_feature_columns env X) s (sp, de) s1 \<and>
                      yields (combined_dnn_input env sp de) s1 x s2)) \<and>
   fst (xDeepFM_forward env' self' X' s') \<noteq> Inl NotImplementedError \<and>
   fst (FiBiNET_forward env'' self'' X'' s'') \<noteq> Inl NotImplementedError \<and>
   (xDeepFM.dnn_hidden_units self' = [] \<and> cin_layer_size self' = [] \<and>
    yields (input_from_feature_columns env' X') s0 (sparse, dense) s1 \<and>
    yields (linear_model env' X') s1 linear_logit s2 \<and>
    yields (torch_cat env' sparse 1) s2 cin_input s3 \<and>
    yields (cin env' cin_input) s3 cin_output s4 \<and>
    yields (cin_linear env' cin_output) s4 cin_logit s5 \<and>
    yields (combined_dnn_input env' sparse dense) s5 dnn_input s6 \<and>
    yields (dnn env' dnn_input) s6 dnn_output s7 \<and>
    yields (dnn_linear env' dnn_output) s7 dnn_logit s8 \<longrightarrow>
    xDeepFM_forward env' self' X' s0 = call (out env' linear_logit) s8)"
  by (intro conjI impI DCN_forward_NotImplementedError xDeepFM_forward_no_NotImplementedError
        FiBiNET_forward_no_NotImplementedError, elim conjE, rule xDeepFM_forward_only_linear)

text \<open>
  The theorem at the example layers: a DCN object with no hidden units and no cross layers,
  and an xDeepFM object with no hidden units and no CIN layers.
\<close>

theorem forward_NotImplementedError_witness:
  "fst (DCN_forward demo_layers \<lparr>modules = [], DCN.dnn_hidden_units = [], cross_num = 0\<rparr> 1 (2, 0))
     = Inl NotImplementedError \<and>
   xDeepFM_forward demo_layers
      \<lparr>modules = [], xDeepFM.dnn_hidden_units = [], cin_layer_size = [], featuremap_num = 0\<rparr> 1 (2, 0)
     = (Inr 2, (2, 9))"
proof -
  let ?dcn = "\<lparr>modules = [], DCN.dnn_hidden_units = [], cross_num = 0\<rparr>"
  let ?xd = "\<lparr>modules = [], xDeepFM.dnn_hidden_units = [], cin_layer_size = [], featuremap_num = 0\<rparr>"
  have y1: "yields (input_from_feature_columns demo_layers 1) (2, 0) ([1, 2], [3]) (2, 1)"
    by (simp add: yields_def demo_layers_def)
  have y2: "yields (combined_dnn_input demo_layers [1, 2] [3]) (2, 1) 6 (2, 2)"
    by (simp add: yields_def demo_layers_def)
  have "fst (DCN_forward demo_layers ?dcn 1 (2, 0)) = Inl NotImplementedError"
    using forward_NotImplementedError [THEN conjunct1, of demo_layers ?dcn 1 "(2, 0)"] y1 y2
    by simp blast
  moreover have "xDeepFM.dnn_hidden_units ?xd = [] \<and> cin_layer_size ?xd = [] \<and>
      yields (input_from_feature_columns demo_layers 1) (2, 0) ([1, 2], [3]) (2, 1) \<and>
      yields (linear_model demo_layers 1) (2, 1) 2 (2, 2) \<and>
      yields (torch_cat demo_layers [1, 2] 1) (2, 2) 3 (2, 3) \<and>
      yields (cin demo_layers 3) (2, 3) 9 (2, 4) \<and>
      yields (cin_linear demo_layers 9) (2, 4) 27 (2, 5) \<and>
      yields (combined_dnn_input demo_layers [1, 2] [3]) (2, 5) 6 (2, 6) \<and>
      yields (dnn demo_layers 6) (2, 6) 13 (2, 7) \<and>
      yields (dnn_linear demo_layers 13) (2, 7) 26 (2, 8) \<longrightarrow>
      xDeepFM_forward demo_layers ?xd 1 (2, 0) = call (out demo_layers 2) (2, 8)"
    by (rule forward_NotImplementedError [THEN conjunct2, THEN conjunct2, THEN conjunct2])
  then have "xDeepFM_forward demo_layers ?xd 1 (2, 0) = (Inr 2, (2, 9))"
    by (simp add: yields_def demo_layers_def call_def)
  ultimately show ?thesis by simp
qed

text \<open>
  C1 as stated fails. With zero interaction layers and zero hidden units, constructing
  xDeepFM or FiBiNET ends in \<^verbatim>\<open>IndexError\<close> and constructing DCN in
  \<^verbatim>\<open>UnboundLocalError\<close>, and the forward pass of xDeepFM on such an object returns a
  prediction: none of them is \<^verbatim>\<open>NotImplementedError\<close>.
\<close>

theorem zero_config_counterexample:
  "xDeepFM_init plain_framework [SparseFeat, SparseFeat] [SparseFeat, SparseFeat] 4 [] [] True
     = Inl IndexError \<and>
   fst (xDeepFM_forward demo_layers
      \<lparr>modules = [], xDeepFM.dnn_hidden_units = [], cin_layer_size = [], featuremap_num = 0\<rparr> 1 (2, 0))
     = Inr 2 \<and>
   FiBiNET_init plain_framework [SparseFeat, SparseFeat] [SparseFeat, SparseFeat] 4 ''interaction'' 3 []
     = Inl IndexError \<and>
   DCN_init plain_framework [SparseFeat, SparseFeat] 4 0 [] = Inl UnboundLocalError"
  by (simp add: xDeepFM_init_def FiBiNET_init_def DCN_init_def plain_framework_def on_ok_def
        instantiate_def py_last_def xDeepFM_forward_def demo_layers_def then_do_def call_def ret_def)

section \<open>Zero cross layers\<close>

lemma DCN_init_returns:
  assumes "construct fw = (\<lambda>c. None)" and "self_call fw = (\<lambda>n. None)" and "hs \<noteq> [] \<or> cn > 0"
  shows "\<exists>m. DCN_init fw cols E cn hs = Inr m"
  using assms
  by (auto simp: DCN_init_def on_ok_def instantiate_def invoke_def py_last_def)

text \<open>
  C3 (amended). When DCN is configured with \<^verbatim>\<open>cross_num = 0\<close>, the constructor still
  instantiates and registers the \<^verbatim>\<open>CrossNet\<close> component, with zero layers; the forward pass
  never calls it: replacing the cross network by any other leaves the forward pass unchanged
  (for the constructed object, and for every object whose \<^verbatim>\<open>cross_num\<close> is not positive).
  Such an object is constructed whenever \<^verbatim>\<open>dnn_hidden_units\<close> is non-empty and the
  collaborators return.
\<close>

theorem DCN_zero_cross_layers:
  "(DCN_init fw cols E 0 hs = Inr m \<longrightarrow>
      map_of (modules m) ''crossnet'' = Some (CrossNet (base_compute_input_dim fw cols E) 0) \<and>
      cross_num m = 0 \<and>
      DCN_forward (env\<lparr>crossnet := c\<rparr>) m X = DCN_forward env m X) \<and>
   (cross_num self \<le> 0 \<longrightarrow> DCN_forward (env'\<lparr>crossnet := c'\<rparr>) self X' = DCN_forward env' self X') \<and>
   (construct fw = (\<lambda>c. None) \<and> self_call fw = (\<lambda>n. None) \<and> hs \<noteq> [] \<longrightarrow>
      (\<exists>m. DCN_init fw cols E 0 hs = Inr m))"
proof (intro conjI impI)
  assume i: "DCN_init fw cols E 0 hs = Inr m"
  from DCN_init_Inr(4) [OF i]
  show "map_of (modules m) ''crossnet'' = Some (CrossNet (base_compute_input_dim fw cols E) 0)"
    by simp
  from DCN_init_Inr(3) [OF i] show z: "cross_num m = 0" .
  then show "DCN_forward (env\<lparr>crossnet := c\<rparr>) m X = DCN_forward env m X"
    by (simp add: DCN_forward_without_crossnet)
next
  assume "cross_num self \<le> 0"
  then show "DCN_forward (env'\<lparr>crossnet := c'\<rparr>) self X' = DCN_forward env' self X'"
    by (rule DCN_forward_without_crossnet)
next
  assume "construct fw = (\<lambda>c. None) \<and> self_call fw = (\<lambda>n. None) \<and> hs \<noteq> []"
  then show "\<exists>m. DCN_init fw cols E 0 hs = Inr m"
    by (simp add: DCN_init_returns)
qed

text \<open>
  The theorem at \<^verbatim>\<open>DCN(cols, embedding_size=8, cross_num=0, dnn_hidden_units=(32,))\<close>, the
  configuration of the repository's test: the forward pass returns even when the cross
  network is replaced by one that always raises.
\<close>

theorem DCN_zero_cross_layers_witness:
  "\<exists>m. DCN_init plain_framework [SparseFeat, SparseFeat] 8 0 [32] = Inr m \<and>
       map_of (modules m) ''crossnet'' = Some (CrossNet 16 0) \<and>
       DCN_forward (demo_layers\<lparr>crossnet := (\<lambda>x s. (Inl (), s))\<rparr>) m 1 (2, 0)
         = DCN_forward demo_layers m 1 (2, 0) \<and>
       DCN_forward demo_layers m 1 (2, 0) = (Inr 26, (2, 5))"
proof -
  let ?cols = "[SparseFeat, SparseFeat]"
  have "construct plain_framework = (\<lambda>c. None) \<and> self_call plain_framework = (\<lambda>n. None) \<and>
      [32::int] \<noteq> [] \<longrightarrow> (\<exists>m. DCN_init plain_framework ?cols 8 0 [32] = Inr m)"
    by (rule DCN_zero_cross_layers [THEN conjunct2, THEN conjunct2])
  then obtain m where m: "DCN_init plain_framework ?cols 8 0 [32] = Inr m"
    by (auto simp: plain_framework_def)
  have "DCN_init plain_framework ?cols 8 0 [32] = Inr m \<longrightarrow>
      map_of (modules m) ''crossnet''
        = Some (CrossNet (base_compute_input_dim plain_framework ?cols 8) 0) \<and>
      cross_num m = 0 \<and>
      DCN_forward (demo_layers\<lparr>crossnet := (\<lambda>x s. (Inl (), s))\<rparr>) m 1
        = DCN_forward demo_layers m 1"
    by (rule DCN_zero_cross_layers [THEN conjunct1])
  with m have a: "map_of (modules m) ''crossnet'' = Some (CrossNet 16 0)"
    and b: "DCN_forward (demo_layers\<lparr>crossnet := (\<lambda>x s. (Inl (), s))\<rparr>) m 1 (2, 0)
        = DCN_forward demo_layers m 1 (2, 0)"
    by (simp_all add: plain_framework_def py_sum_def)
  have "DCN.dnn_hidden_units m = [32]" and "cross_num m = 0"
    using DCN_init_Inr(2,3) [OF m] by simp_all
  then have "DCN_forward demo_layers m 1 (2, 0) = (Inr 26, (2, 5))"
    by (simp add: DCN_forward_def demo_layers_def then_do_def call_def)
  with m a b show ?thesis by blast
qed

text \<open>
  C3 as stated fails: with \<^verbatim>\<open>cross_num = 0\<close> the constructed object has a \<^verbatim>\<open>CrossNet\<close>
  registered under \<^verbatim>\<open>crossnet\<close>.
\<close>

theorem crossnet_instantiated_counterexample:
  "DCN_init plain_framework [SparseFeat, SparseFeat] 8 0 [32] =
     Inr \<lparr>modules = [(''dnn'', DNN 16 [32]), (''dnn_linear'', Linear 32 1),
                     (''crossnet'', CrossNet 16 0)],
          DCN.dnn_hidden_units = [32], cross_num = 0\<rparr> \<and>
   map_of [(''dnn'', DNN 16 [32]), (''dnn_linear'', Linear 32 1), (''crossnet'', CrossNet 16 0)]
     ''crossnet'' = Some (CrossNet 16 0)"
  by (simp add: DCN_init_def plain_framework_def on_ok_def instantiate_def invoke_def py_last_def
        py_sum_def)

section \<open>The final logit\<close>

lemma then_do_assoc: "then_do (then_do m f) g = then_do m (\<lambda>a. then_do (f a) g)"
  by (auto simp: then_do_def fun_eq_iff split: prod.splits sum.splits)

lemma DCN_forward_deep_cross:
  assumes "DCN.dnn_hidden_units self \<noteq> []" and "cross_num self > 0"
    and "yields (input_from_feature_columns env X) s0 (sparse, dense) s1"
    and "yields (combined_dnn_input env sparse dense) s1 dnn_input s2"
    and "yields (dnn env dnn_input) s2 deep_out s3"
    and "yields (crossnet env dnn_input) s3 cross_out s4"
    and "yields (torch_cat env [cross_out, deep_out] (- 1)) s4 stack_out s5"
    and "yields (dnn_linear env stack_out) s5 final_logit s6"
  shows "DCN_forward env self X s0 = call (out env final_logit) s6"
  using assms by (simp add: DCN_forward_def then_do_assoc then_do_yields)

lemma DCN_forward_only_deep:
  assumes "DCN.dnn_hidden_units self \<noteq> []" and "\<not> cross_num self > 0"
    and "yields (input_from_feature_columns env X) s0 (sparse, dense) s1"
    and "yields (combined_dnn_input env sparse dense) s1 dnn_input s2"
    and "yields (dnn env dnn_input) s2 deep_out s3"
    and "yields (dnn_linear env deep_out) s3 final_logit s4"
  shows "DCN_forward env self X s0 = call (out env final_logit) s4"
  using assms by (simp add: DCN_forward_def then_do_assoc then_do_yields)

lemma DCN_forward_only_cross:
  assumes "DCN.dnn_hidden_units self = []" and "cross_num self > 0"
    and "yields (input_from_feature_columns env X) s0 (sparse, dense) s1"
    and "yields (combined_dnn_input env sparse dense) s1 dnn_input s2"
    and "yields (crossnet env dnn_input) s2 cross_out s3"
    and "yields (dnn_linear env cross_out) s3 final_logit s4"
  shows "DCN_forward env self X s0 = call (out env final_logit) s4"
  using assms by (simp add: DCN_forward_def then_do_assoc then_do_yields)

lemma xDeepFM_forward_sum:
  assumes "yields (input_from_feature_columns env X) s0 (sparse, dense) s1"
    and "yields (linear_model env X) s1 linear_logit s2"
    and "yields (torch_cat env sparse 1) s2 cin_input s3"
    and "yields (cin env cin_input) s3 cin_output s4"
    and "yields (cin_linear env cin_output) s4 cin_logit s5"
    and "yields (combined_dnn_input env sparse dense) s5 dnn_input s6"
    and "yields (dnn env dnn_input) s6 dnn_output s7"
    and "yields (dnn_linear env dnn_output) s7 dnn_logit s8"
  shows "xDeepFM_forward env self X s0 =
     call (out env (sum_from linear_logit
        ((if xDeepFM.dnn_hidden_units self \<noteq> [] then [dnn_logit] else []) @
         (if cin_layer_size self \<noteq> [] then [cin_logit] else [])))) s8"
  using assms by (simp add: xDeepFM_forward_def then_do_yields then_do_ret sum_from_def)

lemma FiBiNET_forward_sum:
  assumes "yields (input_from_feature_columns env X) s0 (sparse, dense) s1"
    and "yields (torch_cat env sparse 1) s1 sparse_embedding_input s2"
    and "yields (SE env sparse_embedding_input) s2 senet_output s3"
    and "yields (Bilinear env senet_output) s3 senet_bilinear_out s4"
    and "yields (Bilinear env sparse_embedding_input) s4 bilinear_out s5"
    and "yields (linear_model env X) s5 linear_logit s6"
    and "yields (torch_cat env [senet_bilinear_out, bilinear_out] 1) s6 cat_out s7"
    and "yields (torch_split env cat_out 1 1) s7 temp s8"
    and "yields (combined_dnn_input env temp dense) s8 dnn_input s9"
    and "yields (dnn env dnn_input) s9 dnn_output s10"
    and "yields (dnn_linear env dnn_output) s10 dnn_logit s11"
  shows "FiBiNET_forward env self X s0 =
     call (out env
       (if linear_feature_columns self \<noteq> [] \<and> dnn_feature_columns self \<noteq> []
        then linear_logit + dnn_logit
        else if linear_feature_columns self = [] then dnn_logit else linear_logit)) s11"
  using assms by (simp add: FiBiNET_forward_def then_do_yields then_do_ret)


text \<open>
  C5. In every assembler the final logit is made of exactly the active branches and is
  then passed through the output transform \<open>out\<close>. Each case is stated for a forward pass
  whose collaborator calls return the named values. DCN: the concatenation of cross and deep
  output, the deep output alone, or the cross output alone, projected through
  \<^verbatim>\<open>dnn_linear\<close>. xDeepFM: the left-to-right sum of the linear logit, the DNN logit when
  \<^verbatim>\<open>dnn_hidden_units\<close> is non-empty, and the CIN logit when \<^verbatim>\<open>cin_layer_size\<close> is
  non-empty; with both non-empty it is \<open>out (linear_logit + dnn_logit + cin_logit)\<close>.
  FiBiNET: \<open>out (linear_logit + dnn_logit)\<close> when both feature-column lists are non-empty,
  the DNN logit alone when there are no linear columns, the linear logit alone otherwise.
\<close>

theorem final_logit_is_sum_of_active_branches:
  "(DCN.dnn_hidden_units dcn \<noteq> [] \<and> cross_num dcn > 0 \<and>
    yields (input_from_feature_columns env X) s0 (sparse, dense) s1 \<and>
    yields (combined_dnn_input env sparse dense) s1 dnn_input s2 \<and>
    yields (dnn env dnn_input) s2 deep_out s3 \<and>
    yields (crossnet env dnn_input) s3 cross_out s4 \<and>
    yields (torch_cat env [cross_out, deep_out] (- 1)) s4 stack_out s5 \<and>
    yields (dnn_linear env stack_out) s5 final_logit s6 \<longrightarrow>
    DCN_forward env dcn X s0 = call (out env final_logit) s6) \<and>
   (DCN.dnn_hidden_units dcn \<noteq> [] \<and> \<not> cross_num dcn > 0 \<and>
    yields (input_from_feature_columns env X) s0 (sparse, dense) s1 \<and>
    yields (combined_dnn_input env sparse dense) s1 dnn_input s2 \<and>
    yields (dnn env dnn_input) s2 deep_out s3 \<and>
    yields (dnn_linear env deep_out) s3 final_logit s4 \<longrightarrow>
    DCN_forward env dcn X s0 = call (out env final_logit) s4) \<and>
   (DCN.dnn_hidden_units dcn = [] \<and> cross_num dcn > 0 \<and>
    yields (input_from_feature_columns env X) s0 (sparse, dense) s1 \<and>
    yields (combined_dnn_input env sparse dense) s1 dnn_input s2 \<and>
    yields (crossnet env dnn_input) s2 cross_out s3 \<and>
    yields (dnn_linear env cross_out) s3 final_logit s4 \<longrightarrow>
    DCN_forward env dcn X s0 = call (out env final_logit) s4) \<and>
   (yields (input_from_feature_columns env X) s0 (sparse, dense) s1 \<and>
    yields (linear_model env X) s1 linear_logit s2 \<and>
    yields (torch_cat env sparse 1) s2 cin_input s3 \<and>
    yields (cin env cin_input) s3 cin_output s4 \<and>
    yields (cin_linear env cin_output) s4 cin_logit s5 \<and>
    yields (combined_dnn_input env sparse dense) s5 dnn_input s6 \<and>
    yields (dnn env dnn_input) s6 dnn_output s7 \<and>
    yields (dnn_linear env dnn_output) s7 dnn_logit s8 \<longrightarrow>
    xDeepFM_forward env xd X s0 =
      call (out env (sum_from linear_logit
        ((if xDeepFM.dnn_hidden_units xd \<noteq> [] then [dnn_logit] else []) @
         (if cin_layer_size xd \<noteq> [] then [cin_logit] else [])))) s8 \<and>
    (xDeepFM.dnn_hidden_units xd \<noteq> [] \<and> cin_layer_size xd \<noteq> [] \<longrightarrow>
       xDeepFM_forward env xd X s0 = call (out env (linear_logit + dnn_logit + cin_logit)) s8)) \<and>
   (yields (input_from_feature_columns env X) s0 (sparse, dense) s1 \<and>
    yields (torch_cat env sparse 1) s1 sparse_embedding_input s2 \<and>
    yields (SE env sparse_embedding_input) s2 senet_output s3 \<and>
    yields (Bilinear env senet_output) s3 senet_bilinear_out s4 \<and>
    yields (Bilinear env sparse_embedding_input) s4 bilinear_out s5 \<and>
    yields (linear_model env X) s5 linear_logit s6 \<and>
    yields (torch_cat env [senet_bilinear_out, bilinear_out] 1) s6 cat_out s7 \<and>
    yields (torch_split env cat_out 1 1) s7 temp s8 \<and>
    yields (combined_dnn_input env temp dense) s8 dnn_input s9 \<and>
    yields (dnn env dnn_input) s9 dnn_output s10 \<and>
    yields (dnn_linear env dnn_output) s10 dnn_logit s11 \<longrightarrow>
    FiBiNET_forward env fb X s0 =
      call (out env
        (if linear_feature_columns fb \<noteq> [] \<and> dnn_feature_columns fb \<noteq> []
         then linear_logit + dnn_logit
         else if linear_feature_columns fb = [] then dnn_logit else linear_logit)) s11)"
proof (intro conjI impI; elim conjE)
  assume "yields (input_from_feature_columns env X) s0 (sparse, dense) s1"
    "yields (linear_model env X) s1 linear_logit s2"
    "yields (torch_cat env sparse 1) s2 cin_input s3"
    "yields (cin env cin_input) s3 cin_output s4"
    "yields (cin_linear env cin_output) s4 cin_logit s5"
    "yields (combined_dnn_input env sparse dense) s5 dnn_input s6"
    "yields (dnn env dnn_input) s6 dnn_output s7"
    "yields (dnn_linear env dnn_output) s7 dnn_logit s8"
  then have x: "xDeepFM_forward env xd X s0 =
      call (out env (sum_from linear_logit
        ((if xDeepFM.dnn_hidden_units xd \<noteq> [] then [dnn_logit] else []) @
         (if cin_layer_size xd \<noteq> [] then [cin_logit] else [])))) s8"
    by (rule xDeepFM_forward_sum)
  then show "xDeepFM_forward env xd X s0 =
      call (out env (sum_from linear_logit
        ((if xDeepFM.dnn_hidden_units xd \<noteq> [] then [dnn_logit] else []) @
         (if cin_layer_size xd \<noteq> [] then [cin_logit] else [])))) s8" .
  assume "xDeepFM.dnn_hidden_units xd \<noteq> []" "cin_layer_size xd \<noteq> []"
  with x show "xDeepFM_forward env xd X s0 = call (out env (linear_logit + dnn_logit + cin_logit)) s8"
    by (simp add: sum_from_def)
qed (erule (7) DCN_forward_deep_cross, erule (5) DCN_forward_only_deep,
     erule (5) DCN_forward_only_cross, erule (10) FiBiNET_forward_sum)

text \<open>
  The theorem at the example layers, for xDeepFM with both lists non-empty, FiBiNET with
  both feature-column lists non-empty, and DCN with hidden units and cross layers.
\<close>

theorem final_logit_is_sum_of_active_branches_witness:
  "xDeepFM_forward demo_layers
      \<lparr>modules = [], xDeepFM.dnn_hidden_units = [256, 256], cin_layer_size = [128, 128],
       featuremap_num = 192\<rparr> 1 (2, 0) = (Inr (2 + 26 + 27), (2, 9)) \<and>
   FiBiNET_forward demo_layers
      \<lparr>modules = [], linear_feature_columns = [SparseFeat], dnn_feature_columns = [SparseFeat],
       filed_size = 1\<rparr> 1 (2, 0) = (Inr (2 + 194), (2, 12)) \<and>
   DCN_forward demo_layers
      \<lparr>modules = [], DCN.dnn_hidden_units = [128, 128], cross_num = 2\<rparr> 1 (2, 0)
     = (Inr 110, (2, 7))"
proof -
  let ?xd = "\<lparr>modules = [], xDeepFM.dnn_hidden_units = [256, 256], cin_layer_size = [128, 128],
       featuremap_num = 192\<rparr>"
  let ?fb = "\<lparr>modules = [], linear_feature_columns = [SparseFeat],
       dnn_feature_columns = [SparseFeat], filed_size = 1\<rparr>"
  let ?dcn = "\<lparr>modules = [], DCN.dnn_hidden_units = [128, 128], cross_num = 2\<rparr>"
  note claim = final_logit_is_sum_of_active_branches
  have "yields (input_from_feature_columns demo_layers 1) (2, 0) ([1, 2], [3]) (2, 1) \<and>
      yields (linear_model demo_layers 1) (2, 1) 2 (2, 2) \<and>
      yields (torch_cat demo_layers [1, 2] 1) (2, 2) 3 (2, 3) \<and>
      yields (cin demo_layers 3) (2, 3) 9 (2, 4) \<and>
      yields (cin_linear demo_layers 9) (2, 4) 27 (2, 5) \<and>
      yields (combined_dnn_input demo_layers [1, 2] [3]) (2, 5) 6 (2, 6) \<and>
      yields (dnn demo_layers 6) (2, 6) 13 (2, 7) \<and>
      yields (dnn_linear demo_layers 13) (2, 7) 26 (2, 8) \<longrightarrow>
      xDeepFM_forward demo_layers ?xd 1 (2, 0) =
        call (out demo_layers (sum_from 2
          ((if xDeepFM.dnn_hidden_units ?xd \<noteq> [] then [26] else []) @
           (if cin_layer_size ?xd \<noteq> [] then [27] else [])))) (2, 8) \<and>
      (xDeepFM.dnn_hidden_units ?xd \<noteq> [] \<and> cin_layer_size ?xd \<noteq> [] \<longrightarrow>
         xDeepFM_forward demo_layers ?xd 1 (2, 0) = call (out demo_layers (2 + 26 + 27)) (2, 8))"
    by (rule claim [THEN conjunct2, THEN conjunct2, THEN conjunct2, THEN conjunct1])
  then have x: "xDeepFM_forward demo_layers ?xd 1 (2, 0) = (Inr (2 + 26 + 27), (2, 9))"
    by (simp add: yields_def demo_layers_def call_def sum_from_def)
  have "yields (input_from_feature_columns demo_layers 1) (2, 0) ([1, 2], [3]) (2, 1) \<and>
      yields (torch_cat demo_layers [1, 2] 1) (2, 1) 3 (2, 2) \<and>
      yields (SE demo_layers 3) (2, 2) 6 (2, 3) \<and>
      yields (Bilinear demo_layers 6) (2, 3) 36 (2, 4) \<and>
      yields (Bilinear demo_layers 3) (2, 4) 9 (2, 5) \<and>
      yields (linear_model demo_layers 1) (2, 5) 2 (2, 6) \<and>
      yields (torch_cat demo_layers [36, 9] 1) (2, 6) 45 (2, 7) \<and>
      yields (torch_split demo_layers 45 1 1) (2, 7) [45] (2, 8) \<and>
      yields (combined_dnn_input demo_layers [45] [3]) (2, 8) 48 (2, 9) \<and>
      yields (dnn demo_layers 48) (2, 9) 97 (2, 10) \<and>
      yields (dnn_linear demo_layers 97) (2, 10) 194 (2, 11) \<longrightarrow>
      FiBiNET_forward demo_layers ?fb 1 (2, 0) =
        call (out demo_layers
          (if linear_feature_columns ?fb \<noteq> [] \<and> dnn_feature_columns ?fb \<noteq> []
           then 2 + 194
           else if linear_feature_columns ?fb = [] then 194 else 2)) (2, 11)"
    by (rule claim [THEN conjunct2, THEN conjunct2, THEN conjunct2, THEN conjunct2])
  then have f: "FiBiNET_forward demo_layers ?fb 1 (2, 0) = (Inr (2 + 194), (2, 12))"
    by (simp add: yields_def demo_layers_def call_def)
  have "DCN.dnn_hidden_units ?dcn \<noteq> [] \<and> cross_num ?dcn > 0 \<and>
      yields (input_from_feature_columns demo_layers 1) (2, 0) ([1, 2], [3]) (2, 1) \<and>
      yields (combined_dnn_input demo_layers [1, 2] [3]) (2, 1) 6 (2, 2) \<and>
      yields (dnn demo_layers 6) (2, 2) 13 (2, 3) \<and>
      yields (crossnet demo_layers 6) (2, 3) 42 (2, 4) \<and>
      yields (torch_cat demo_layers [42, 13] (- 1)) (2, 4) 55 (2, 5) \<and>
      yields (dnn_linear demo_layers 55) (2, 5) 110 (2, 6) \<longrightarrow>
      DCN_forward demo_layers ?dcn 1 (2, 0) = call (out demo_layers 110) (2, 6)"
    by (rule claim [THEN conjunct1])
  then have d: "DCN_forward demo_layers ?dcn 1 (2, 0) = (Inr 110, (2, 7))"
    by (simp add: yields_def demo_layers_def call_def)
  from x f d show ?thesis by simp
qed

section \<open>Empty layer lists\<close>





section \<open>Parameters are left alone\<close>

























text \<open>A run that writes the parameter does not keep it: the property is one of the body.\<close>

lemma writing_run_does_not_keep:
  "\<not> keeps fst (then_do (call (dnn demo_layers 1)) (\<lambda>y s. (Inr y, (fst s + 1, snd s))))"
  by (simp add: keeps_def then_do_def call_def demo_layers_def)



section \<open>The cross network\<close>

lemma dot_sum: "length w = length x \<Longrightarrow> dot w x = (\<Sum>j<length x. w ! j * x ! j)"
  by (simp add: dot_def sum_list_sum_nth atLeast0LessThan)

lemma length_cross_layer:
  "length x0 = D \<Longrightarrow> length (snd wb) = D \<Longrightarrow> length xl = D \<Longrightarrow> length (cross_layer x0 wb xl) = D"
  by (simp add: cross_layer_def vadd_def scale_def)

lemma nth_cross_layer:
  assumes "length x0 = D" and "length w = D" and "length b = D" and "length xl = D" and "i < D"
  shows "cross_layer x0 (w, b) xl ! i = x0 ! i * (\<Sum>j<D. w ! j * xl ! j) + b ! i + xl ! i"
  using assms by (simp add: cross_layer_def vadd_def scale_def dot_sum)

lemma cross_loop_snoc:
  "cross_loop x0 xl (layers @ [wb]) = cross_layer x0 wb (cross_loop x0 xl layers)"
  by (induction layers arbitrary: xl) simp_all

lemma CrossNet_forward_Suc:
  assumes "l < length layers"
  shows "CrossNet_forward (take (Suc l) layers) x0
           = cross_layer x0 (layers ! l) (CrossNet_forward (take l layers) x0)"
  using assms by (simp add: CrossNet_forward_def take_Suc_conv_app_nth cross_loop_snoc)

text \<open>
  C6. For the cross network with one layer \<open>(w1, b1)\<close> and every input vector \<open>x0\<close>, the
  output is \<open>x0 * (w1 \<cdot> x0) + b1 + x0\<close>: for vectors of dimension \<open>D\<close> its component \<open>i\<close> is
  \<open>x0\<^sub>i * (\<Sum>j<D. w1\<^sub>j * x0\<^sub>j) + b1\<^sub>i + x0\<^sub>i\<close>. In general the state starts as \<open>x0\<close>, and
  the state after layer \<open>l + 1\<close> is \<open>x0 * (w \<cdot> x) + b + x\<close> for that layer's \<open>(w, b)\<close> and the
  state \<open>x\<close> after layer \<open>l\<close>; the output is the state after the last layer.
\<close>

theorem CrossNet_closed_form:
  "CrossNet_forward [(w1, b1)] x0 = vadd (vadd (scale x0 (dot w1 x0)) b1) x0 \<and>
   (length x0 = D \<and> length w1 = D \<and> length b1 = D \<longrightarrow>
      length (CrossNet_forward [(w1, b1)] x0) = D \<and>
      (\<forall>i<D. CrossNet_forward [(w1, b1)] x0 ! i
                = x0 ! i * (\<Sum>j<D. w1 ! j * x0 ! j) + b1 ! i + x0 ! i)) \<and>
   CrossNet_forward (take 0 layers) x0 = x0 \<and>
   (l < length layers \<longrightarrow>
      CrossNet_forward (take (Suc l) layers) x0
        = vadd (vadd (scale x0 (dot (fst (layers ! l)) (CrossNet_forward (take l layers) x0)))
                     (snd (layers ! l)))
               (CrossNet_forward (take l layers) x0)) \<and>
   CrossNet_forward (take (length layers) layers) x0 = CrossNet_forward layers x0"
proof (intro conjI impI allI)
  show "CrossNet_forward [(w1, b1)] x0 = vadd (vadd (scale x0 (dot w1 x0)) b1) x0"
    by (simp add: CrossNet_forward_def cross_layer_def)
next
  assume "length x0 = D \<and> length w1 = D \<and> length b1 = D"
  then show "length (CrossNet_forward [(w1, b1)] x0) = D"
    by (simp add: CrossNet_forward_def length_cross_layer)
next
  fix i
  assume "length x0 = D \<and> length w1 = D \<and> length b1 = D" and "i < D"
  then show "CrossNet_forward [(w1, b1)] x0 ! i
      = x0 ! i * (\<Sum>j<D. w1 ! j * x0 ! j) + b1 ! i + x0 ! i"
    by (simp add: CrossNet_forward_def nth_cross_layer)
next
  show "CrossNet_forward (take 0 layers) x0 = x0"
    by (simp add: CrossNet_forward_def)
next
  assume "l < length layers"
  then show "CrossNet_forward (take (Suc l) layers) x0
      = vadd (vadd (scale x0 (dot (fst (layers ! l)) (CrossNet_forward (take l layers) x0)))
                   (snd (layers ! l)))
             (CrossNet_forward (take l layers) x0)"
    by (simp add: CrossNet_forward_Suc cross_layer_def)
next
  show "CrossNet_forward (take (length layers) layers) x0 = CrossNet_forward layers x0"
    by simp
qed

text \<open>
  The theorem at \<open>D = 3\<close>, with \<open>x0 = (1, 2, 3)\<close>, \<open>w1 = (1, 0, -1)\<close> and
  \<open>b1 = (1/2, 0, 1)\<close>, and with a second layer \<open>w2 = (0, 1, 0)\<close>, \<open>b2 = 0\<close>.
\<close>

theorem CrossNet_closed_form_witness:
  "CrossNet_forward [([1, 0, - 1], [1 / 2, 0, 1])] [1, 2, 3] = [- 1 / 2, - 2, - 2] \<and>
   CrossNet_forward [([1, 0, - 1], [1 / 2, 0, 1])] [1, 2, 3] ! 0
     = 1 * (1 * 1 + 0 * 2 + (- 1) * 3) + 1 / 2 + 1 \<and>
   CrossNet_forward (take 2 [([1, 0, - 1], [1 / 2, 0, 1]), ([0, 1, 0], [0, 0, 0])]) [1, 2, 3]
     = [- 5 / 2, - 6, - 8]"
proof -
  let ?w = "[1, 0, - 1] :: real list" and ?b = "[1 / 2, 0, 1] :: real list"
  let ?x = "[1, 2, 3] :: real list"
  let ?layers = "[(?w, ?b), ([0, 1, 0], [0, 0, 0])]"
  note claim = CrossNet_closed_form
  have a: "CrossNet_forward [(?w, ?b)] ?x = vadd (vadd (scale ?x (dot ?w ?x)) ?b) ?x"
    by (rule claim [THEN conjunct1])
  then have one: "CrossNet_forward [(?w, ?b)] ?x = [- 1 / 2, - 2, - 2]"
    by (simp add: vadd_def scale_def dot_def)
  have "length ?x = 3 \<and> length ?w = 3 \<and> length ?b = 3 \<longrightarrow>
      length (CrossNet_forward [(?w, ?b)] ?x) = 3 \<and>
      (\<forall>i<3. CrossNet_forward [(?w, ?b)] ?x ! i
                = ?x ! i * (\<Sum>j<3. ?w ! j * ?x ! j) + ?b ! i + ?x ! i)"
    by (rule claim [THEN conjunct2, THEN conjunct1])
  then have "CrossNet_forward [(?w, ?b)] ?x ! 0
      = ?x ! 0 * (\<Sum>j<3. ?w ! j * ?x ! j) + ?b ! 0 + ?x ! 0"
    by simp
  then have comp: "CrossNet_forward [(?w, ?b)] ?x ! 0 = 1 * (1 * 1 + 0 * 2 + (- 1) * 3) + 1 / 2 + 1"
    by (simp add: numeral_3_eq_3 lessThan_Suc)
  have "1 < length ?layers \<longrightarrow>
      CrossNet_forward (take (Suc 1) ?layers) ?x
        = vadd (vadd (scale ?x (dot (fst (?layers ! 1)) (CrossNet_forward (take 1 ?layers) ?x)))
                     (snd (?layers ! 1)))
               (CrossNet_forward (take 1 ?layers) ?x)"
    by (rule claim [THEN conjunct2, THEN conjunct2, THEN conjunct2, THEN conjunct1])
  with one have two: "CrossNet_forward (take 2 ?layers) ?x = [- 5 / 2, - 6, - 8]"
    by (simp add: vadd_def scale_def dot_def)
  from one comp two show ?thesis by simp
qed

section \<open>The bilinear interaction and the input width of FiBiNET\<close>

lemma pairs_step: "2 * n + n * (n - 1) = Suc n * n"
  by (cases n) simp_all

lemma twice_length_combinations2:
  "2 * length (combinations2 xs) = length xs * (length xs - 1)"
proof (induction xs)
  case Nil
  show ?case by simp
next
  case (Cons x xs)
  have "2 * length (combinations2 (x # xs)) = 2 * length xs + 2 * length (combinations2 xs)"
    by simp
  also have "\<dots> = 2 * length xs + length xs * (length xs - 1)"
    by (simp only: Cons.IH)
  also have "\<dots> = Suc (length xs) * length xs"
    by (rule pairs_step)
  finally show ?case by simp
qed

lemma length_combinations2: "length (combinations2 xs) = length xs * (length xs - 1) div 2"
  using twice_length_combinations2 [of xs] by (metis nonzero_mult_div_cancel_left zero_neq_numeral)

lemma set_combinations2: "(a, b) \<in> set (combinations2 xs) \<Longrightarrow> a \<in> set xs \<and> b \<in> set xs"
  by (induction xs) auto

lemma length_concat_const:
  "(\<And>x. x \<in> set xs \<Longrightarrow> length (f x) = E) \<Longrightarrow> length (concat (map f xs)) = length xs * E"
  by (induction xs) simp_all

lemma length_product:
  "square E W \<Longrightarrow> length vj = E \<Longrightarrow> length (hadamard (transform W vi) vj) = E"
  by (simp add: square_def hadamard_def transform_def)

lemma BilinearInteraction_width:
  assumes vs: "\<And>v. v \<in> set vs \<Longrightarrow> length v = E" and p: "well_shaped (length vs) E p"
  shows "length (BilinearInteraction_forward p vs) = length vs * (length vs - 1) div 2 * E"
proof (cases p)
  case (W_all W)
  let ?f = "\<lambda>(vi, vj). hadamard (transform W vi) vj"
  from W_all p have sq: "square E W" by simp
  have "length (?f x) = E" if "x \<in> set (combinations2 vs)" for x
  proof -
    obtain vi vj where x: "x = (vi, vj)" by (cases x)
    with that have "vj \<in> set vs" by (auto dest: set_combinations2)
    with x sq vs show ?thesis by (simp add: length_product)
  qed
  then have "length (concat (map ?f (combinations2 vs))) = length (combinations2 vs) * E"
    by (rule length_concat_const)
  with W_all show ?thesis
    by (simp add: length_combinations2)
next
  case (W_each Ws)
  let ?f = "\<lambda>((vi, Wi), (vj, Wj)). hadamard (transform Wi vi) vj"
  from W_each p have len: "length Ws = length vs" and sq: "\<And>W. W \<in> set Ws \<Longrightarrow> square E W"
    by (simp_all add: list_all_iff)
  have "length (?f x) = E" if "x \<in> set (combinations2 (zip vs Ws))" for x
  proof -
    obtain vi Wi vj Wj where x: "x = ((vi, Wi), (vj, Wj))"
      by (metis surj_pair)
    with that have "(vi, Wi) \<in> set (zip vs Ws)" and "(vj, Wj) \<in> set (zip vs Ws)"
      by (auto dest: set_combinations2)
    then have "Wi \<in> set Ws" and "vj \<in> set vs"
      by (auto dest: set_zip_rightD set_zip_leftD)
    with x sq vs show ?thesis
      by (simp add: length_product)
  qed
  then have "length (concat (map ?f (combinations2 (zip vs Ws))))
      = length (combinations2 (zip vs Ws)) * E"
    by (rule length_concat_const)
  with W_each len show ?thesis
    by (simp add: length_combinations2)
next
  case (W_interaction Ws)
  let ?f = "\<lambda>((vi, vj), W). hadamard (transform W vi) vj"
  from W_interaction p have len: "length Ws = length vs * (length vs - 1) div 2"
    and sq: "\<And>W. W \<in> set Ws \<Longrightarrow> square E W"
    by (simp_all add: list_all_iff)
  have "length (?f x) = E" if "x \<in> set (zip (combinations2 vs) Ws)" for x
  proof -
    obtain vi vj W where x: "x = ((vi, vj), W)"
      by (metis surj_pair)
    with that have "(vi, vj) \<in> set (combinations2 vs)" and "W \<in> set Ws"
      by (auto dest: set_zip_rightD set_zip_leftD)
    then have "vj \<in> set vs" and "square E W"
      using sq by (auto dest: set_combinations2)
    with x vs show ?thesis
      by (simp add: length_product)
  qed
  then have "length (concat (map ?f (zip (combinations2 vs) Ws)))
      = length (zip (combinations2 vs) Ws) * E"
    by (rule length_concat_const)
  with W_interaction len show ?thesis
    by (simp add: length_combinations2)
qed

lemma compute_input_dim_eq:
  "compute_input_dim cols E False =
     int (length (filter is_SparseFeat cols)) * (int (length (filter is_SparseFeat cols)) - 1) * E
       + sum_list (map dimension (filter is_DenseFeat cols))"
  by (simp add: compute_input_dim_def py_sum_sum_list Let_def)

lemma pairs_twice: "int (n * (n - 1) div 2 * E + n * (n - 1) div 2 * E) = int n * (int n - 1) * int E"
proof -
  have "even (n * (n - 1))" by (cases "even n") simp_all
  then have "2 * (n * (n - 1) div 2) = n * (n - 1)" by simp
  then have "n * (n - 1) div 2 * E + n * (n - 1) div 2 * E = n * (n - 1) * E"
    by (metis mult_2 distrib_right)
  moreover have "int (n * (n - 1)) = int n * (int n - 1)"
    by (cases n) (simp_all add: algebra_simps)
  ultimately show ?thesis by simp
qed

text \<open>
  C4. For \<open>F\<close> fields of dimension \<open>E\<close> and each of the three sharing policies, with the
  weights the policy owns, the output width of the bilinear interaction is
  \<open>F * (F - 1) / 2 * E\<close>. The DNN input width that \<^verbatim>\<open>FiBiNET.compute_input_dim\<close> computes is
  \<open>F * (F - 1) * E\<close> plus the sum of the dense dimensions, \<open>F\<close> being the number of sparse
  columns: the width of two bilinear outputs concatenated, plus the dense dimensions,
  whatever the policy.
\<close>

theorem BilinearInteraction_output_width:
  "((\<forall>v\<in>set vs. length v = E) \<and> well_shaped (length vs) E p \<longrightarrow>
      length (BilinearInteraction_forward p vs) = length vs * (length vs - 1) div 2 * E) \<and>
   compute_input_dim cols embedding_size False =
      int (length (filter is_SparseFeat cols)) * (int (length (filter is_SparseFeat cols)) - 1)
        * embedding_size
      + sum_list (map dimension (filter is_DenseFeat cols)) \<and>
   ((\<forall>v\<in>set vs. length v = E) \<and> (\<forall>v\<in>set vs'. length v = E) \<and>
    length vs = length (filter is_SparseFeat cols) \<and> length vs' = length vs \<and>
    well_shaped (length vs) E p \<longrightarrow>
      compute_input_dim cols (int E) False =
        int (length (BilinearInteraction_forward p vs' @ BilinearInteraction_forward p vs))
        + sum_list (map dimension (filter is_DenseFeat cols)))"
proof (intro conjI impI)
  assume "(\<forall>v\<in>set vs. length v = E) \<and> well_shaped (length vs) E p"
  then show "length (BilinearInteraction_forward p vs) = length vs * (length vs - 1) div 2 * E"
    by (simp add: BilinearInteraction_width)
next
  show "compute_input_dim cols embedding_size False =
      int (length (filter is_SparseFeat cols)) * (int (length (filter is_SparseFeat cols)) - 1)
        * embedding_size
      + sum_list (map dimension (filter is_DenseFeat cols))"
    by (rule compute_input_dim_eq)
next
  assume a: "(\<forall>v\<in>set vs. length v = E) \<and> (\<forall>v\<in>set vs'. length v = E) \<and>
    length vs = length (filter is_SparseFeat cols) \<and> length vs' = length vs \<and>
    well_shaped (length vs) E p"
  then have v: "\<And>v. v \<in> set vs \<Longrightarrow> length v = E" and v': "\<And>v. v \<in> set vs' \<Longrightarrow> length v = E"
    and l: "length vs' = length vs" and p: "well_shaped (length vs) E p"
    by auto
  from p l have p': "well_shaped (length vs') E p"
    by simp
  have "length (BilinearInteraction_forward p vs) = length vs * (length vs - 1) div 2 * E"
    using v p by (rule BilinearInteraction_width)
  moreover have "length (BilinearInteraction_forward p vs') = length vs * (length vs - 1) div 2 * E"
    using BilinearInteraction_width [of vs' E p, OF v' p'] l by simp
  ultimately
  have "int (length (BilinearInteraction_forward p vs' @ BilinearInteraction_forward p vs))
      = int (length vs) * (int (length vs) - 1) * int E"
    by (simp only: length_append pairs_twice)
  with a show "compute_input_dim cols (int E) False =
      int (length (BilinearInteraction_forward p vs' @ BilinearInteraction_forward p vs))
      + sum_list (map dimension (filter is_DenseFeat cols))"
    by (simp add: compute_input_dim_eq)
qed

text \<open>
  The theorem at \<open>F = 3\<close>, \<open>E = 2\<close>: the three policies own one, three and three matrices,
  and all give width 6; with three dense columns of dimension 1 the DNN input width is 15.
\<close>

theorem BilinearInteraction_output_width_witness:
  "length (BilinearInteraction_forward (W_all [[1, 0], [0, 1]]) [[1, 2], [3, 4], [5, 6]]) = 6 \<and>
   length (BilinearInteraction_forward (W_each [[[1, 0], [0, 1]], [[0, 1], [1, 0]], [[1, 1], [1, 1]]])
             [[1, 2], [3, 4], [5, 6]]) = 6 \<and>
   length (BilinearInteraction_forward
             (W_interaction [[[1, 0], [0, 1]], [[0, 1], [1, 0]], [[1, 1], [1, 1]]])
             [[1, 2], [3, 4], [5, 6]]) = 6 \<and>
   compute_input_dim [SparseFeat, SparseFeat, SparseFeat, DenseFeat 1, DenseFeat 1, DenseFeat 1] 2 False
     = 6 + 6 + 3"
proof -
  let ?vs = "[[1, 2], [3, 4], [5, 6]] :: real list list"
  let ?Ws = "[[[1, 0], [0, 1]], [[0, 1], [1, 0]], [[1, 1], [1, 1]]] :: real list list list"
  let ?cols = "[SparseFeat, SparseFeat, SparseFeat, DenseFeat 1, DenseFeat 1, DenseFeat 1]"
  note claim = BilinearInteraction_output_width
  have w: "(\<forall>v\<in>set ?vs. length v = 2) \<and> well_shaped (length ?vs) 2 p \<longrightarrow>
      length (BilinearInteraction_forward p ?vs) = length ?vs * (length ?vs - 1) div 2 * 2" for p
    by (rule claim [THEN conjunct1])
  have "length (BilinearInteraction_forward (W_all [[1, 0], [0, 1]]) ?vs) = 6"
    using w [of "W_all [[1, 0], [0, 1]]"] by (simp add: square_def)
  moreover have "length (BilinearInteraction_forward (W_each ?Ws) ?vs) = 6"
    using w [of "W_each ?Ws"] by (simp add: square_def)
  moreover have "length (BilinearInteraction_forward (W_interaction ?Ws) ?vs) = 6"
    using w [of "W_interaction ?Ws"] by (simp add: square_def)
  moreover have "compute_input_dim ?cols 2 False = 6 + 6 + 3"
    using claim [THEN conjunct2, THEN conjunct1, of ?cols 2] by simp
  ultimately show ?thesis by simp
qed


section \<open>The binary output transform\<close>

lemma sigmoid_bounds: "0 < sigmoid x" "sigmoid x < 1"
proof -
  have e: "0 < exp (- x)" by simp
  then have d: "0 < 1 + exp (- x)" by (simp add: add_pos_pos)
  then show "0 < sigmoid x"
    by (simp add: sigmoid_def)
  from d e show "sigmoid x < 1"
    by (simp add: sigmoid_def divide_less_eq not_less less_imp_le)
qed

lemma in_unit_interval_PredictionLayer: "in_unit_interval (PredictionLayer ''binary'' z)"
  using sigmoid_bounds by (auto simp: in_unit_interval_def PredictionLayer_def list_all_iff less_imp_le)

lemma scalar_per_row_PredictionLayer:
  "scalar_per_row n z \<Longrightarrow> scalar_per_row n (PredictionLayer task z)"
  by (auto simp: scalar_per_row_def PredictionLayer_def well_formed_def batch_def list_all_iff)

lemma scalar_per_row_batch: "scalar_per_row n z \<Longrightarrow> batch z = n"
  by (simp add: scalar_per_row_def)

lemma scalar_per_row_plus:
  assumes a: "scalar_per_row n a" and b: "scalar_per_row n b"
  shows "scalar_per_row n (a + b)"
proof -
  from a b have eq: "a + b = Tensor 1 (map2 vadd (rows a) (rows b))"
    by (simp add: plus_tensor_def scalar_per_row_def)
  have "length (vadd r1 r2) = 1" if "(r1, r2) \<in> set (zip (rows a) (rows b))" for r1 r2
  proof -
    from that have "r1 \<in> set (rows a)" and "r2 \<in> set (rows b)"
      by (auto dest: set_zip_leftD set_zip_rightD)
    with a b show ?thesis
      by (simp add: scalar_per_row_def well_formed_def list_all_iff vadd_def)
  qed
  with a b show ?thesis
    unfolding eq by (auto simp: scalar_per_row_def well_formed_def batch_def list_all_iff)
qed

lemma then_do_Inr_iff:
  "then_do m f s = (Inr b, s') \<longleftrightarrow> (\<exists>a s1. m s = (Inr a, s1) \<and> f a s1 = (Inr b, s'))"
  by (auto simp: then_do_def split: prod.splits sum.splits)

lemma ret_Inr_iff: "ret a s = (Inr b, s') \<longleftrightarrow> b = a \<and> s' = s"
  by (auto simp: ret_def)

lemma raise_Inr_iff: "raise e s = (Inr b, s') \<longleftrightarrow> False"
  by (simp add: raise_def)

lemma fst_Inr_iff: "fst r = Inr y \<longleftrightarrow> (\<exists>s'. r = (Inr y, s'))"
  by (cases r) simp

lemma DCN_forward_trace:
  assumes "fst (DCN_forward env dcn X s0) = Inr y"
  shows "\<exists>sp de s1 dnn_input s2 z s6 s7.
           yields (input_from_feature_columns env X) s0 (sp, de) s1 \<and>
           yields (combined_dnn_input env sp de) s1 dnn_input s2 \<and>
           yields (out env z) s6 y s7 \<and>
           ((\<exists>deep_out s3 cross_out s4 stack_out s5.
               yields (dnn env dnn_input) s2 deep_out s3 \<and>
               yields (crossnet env dnn_input) s3 cross_out s4 \<and>
               yields (torch_cat env [cross_out, deep_out] (- 1)) s4 stack_out s5 \<and>
               yields (dnn_linear env stack_out) s5 z s6) \<or>
            (\<exists>deep_out s3.
               yields (dnn env dnn_input) s2 deep_out s3 \<and>
               yields (dnn_linear env deep_out) s3 z s6) \<or>
            (\<exists>cross_out s3.
               yields (crossnet env dnn_input) s2 cross_out s3 \<and>
               yields (dnn_linear env cross_out) s3 z s6))"
  using assms
  by (auto simp: fst_Inr_iff DCN_forward_def then_do_Inr_iff call_Inr_iff raise_Inr_iff
           split: if_splits) blast+

lemma xDeepFM_forward_trace:
  assumes "fst (xDeepFM_forward env xd X s0) = Inr y"
  shows "\<exists>sp de s1 linear_logit s2 cin_input s3 cin_output s4 cin_logit s5 dnn_input s6
            dnn_output s7 dnn_logit s8 z s9.
           yields (input_from_feature_columns env X) s0 (sp, de) s1 \<and>
           yields (linear_model env X) s1 linear_logit s2 \<and>
           yields (torch_cat env sp 1) s2 cin_input s3 \<and>
           yields (cin env cin_input) s3 cin_output s4 \<and>
           yields (cin_linear env cin_output) s4 cin_logit s5 \<and>
           yields (combined_dnn_input env sp de) s5 dnn_input s6 \<and>
           yields (dnn env dnn_input) s6 dnn_output s7 \<and>
           yields (dnn_linear env dnn_output) s7 dnn_logit s8 \<and>
           yields (out env z) s8 y s9 \<and>
           (z = linear_logit \<or> z = linear_logit + cin_logit \<or> z = linear_logit + dnn_logit \<or>
            z = linear_logit + dnn_logit + cin_logit)"
  using assms
  by (auto simp: fst_Inr_iff xDeepFM_forward_def then_do_Inr_iff call_Inr_iff raise_Inr_iff
           ret_Inr_iff split: if_splits) blast+

lemma FiBiNET_forward_trace:
  assumes "fst (FiBiNET_forward env fb X s0) = Inr y"
  shows "\<exists>sp de s1 sparse_embedding_input s2 senet_output s3 senet_bilinear_out s4 bilinear_out s5
            linear_logit s6 cat_out s7 temp s8 dnn_input s9 dnn_output s10 dnn_logit s11 z s12.
           yields (input_from_feature_columns env X) s0 (sp, de) s1 \<and>
           yields (torch_cat env sp 1) s1 sparse_embedding_input s2 \<and>
           yields (SE env sparse_embedding_input) s2 senet_output s3 \<and>
           yields (Bilinear env senet_output) s3 senet_bilinear_out s4 \<and>
           yields (Bilinear env sparse_embedding_input) s4 bilinear_out s5 \<and>
           yields (linear_model env X) s5 linear_logit s6 \<and>
           yields (torch_cat env [senet_bilinear_out, bilinear_out] 1) s6 cat_out s7 \<and>
           yields (torch_split env cat_out 1 1) s7 temp s8 \<and>
           yields (combined_dnn_input env temp de) s8 dnn_input s9 \<and>
           yields (dnn env dnn_input) s9 dnn_output s10 \<and>
           yields (dnn_linear env dnn_output) s10 dnn_logit s11 \<and>
           yields (out env z) s11 y s12 \<and>
           (z = linear_logit + dnn_logit \<or> z = dnn_logit \<or> z = linear_logit)"
  using assms
  by (auto simp: fst_Inr_iff FiBiNET_forward_def then_do_Inr_iff call_Inr_iff raise_Inr_iff
           ret_Inr_iff split: if_splits)
     (intro exI conjI, assumption+, simp)+

lemma bp_input:
  assumes "batch_preserving n env" and "batch X = n"
    and "yields (input_from_feature_columns env X) s (sp, de) s'"
  shows "list_all (\<lambda>t. batch t = n) sp \<and> list_all (\<lambda>t. batch t = n) de"
proof -
  from assms(1) have "\<forall>X s sp de s'. batch X = n \<and>
      yields (input_from_feature_columns env X) s (sp, de) s' \<longrightarrow>
      list_all (\<lambda>t. batch t = n) (sp @ de)"
    unfolding batch_preserving_def by (elim conjE)
  with assms(2,3) have "list_all (\<lambda>t. batch t = n) (sp @ de)" by blast
  then show ?thesis by simp
qed

lemma bp_combined:
  assumes "batch_preserving n env" and "list_all (\<lambda>t. batch t = n) sp"
    and "list_all (\<lambda>t. batch t = n) de" and "yields (combined_dnn_input env sp de) s z s'"
  shows "batch z = n"
proof -
  from assms(1) have "\<forall>sp de s z s'. list_all (\<lambda>t. batch t = n) (sp @ de) \<and>
      yields (combined_dnn_input env sp de) s z s' \<longrightarrow> batch z = n"
    unfolding batch_preserving_def by (elim conjE)
  moreover from assms(2,3) have "list_all (\<lambda>t. batch t = n) (sp @ de)" by simp
  ultimately show ?thesis using assms(4) by blast
qed

lemma bp_linear_model:
  assumes "batch_preserving n env" and "batch x = n" and "yields (linear_model env x) s z s'"
  shows "scalar_per_row n z"
proof -
  from assms(1) have "\<forall>x s z s'. batch x = n \<and> yields (linear_model env x) s z s' \<longrightarrow> scalar_per_row n z"
    unfolding batch_preserving_def by (elim conjE)
  with assms(2,3) show ?thesis by blast
qed

lemma bp_dnn:
  assumes "batch_preserving n env" and "batch x = n" and "yields (dnn env x) s z s'"
  shows "batch z = n"
proof -
  from assms(1) have "\<forall>x s z s'. batch x = n \<and> yields (dnn env x) s z s' \<longrightarrow> batch z = n"
    unfolding batch_preserving_def by (elim conjE)
  with assms(2,3) show ?thesis by blast
qed

lemma bp_dnn_linear:
  assumes "batch_preserving n env" and "batch x = n" and "yields (dnn_linear env x) s z s'"
  shows "scalar_per_row n z"
proof -
  from assms(1) have "\<forall>x s z s'. batch x = n \<and> yields (dnn_linear env x) s z s' \<longrightarrow> scalar_per_row n z"
    unfolding batch_preserving_def by (elim conjE)
  with assms(2,3) show ?thesis by blast
qed

lemma bp_crossnet:
  assumes "batch_preserving n env" and "batch x = n" and "yields (crossnet env x) s z s'"
  shows "batch z = n"
proof -
  from assms(1) have "\<forall>x s z s'. batch x = n \<and> yields (crossnet env x) s z s' \<longrightarrow> batch z = n"
    unfolding batch_preserving_def by (elim conjE)
  with assms(2,3) show ?thesis by blast
qed

lemma bp_cin:
  assumes "batch_preserving n env" and "batch x = n" and "yields (cin env x) s z s'"
  shows "batch z = n"
proof -
  from assms(1) have "\<forall>x s z s'. batch x = n \<and> yields (cin env x) s z s' \<longrightarrow> batch z = n"
    unfolding batch_preserving_def by (elim conjE)
  with assms(2,3) show ?thesis by blast
qed

lemma bp_cin_linear:
  assumes "batch_preserving n env" and "batch x = n" and "yields (cin_linear env x) s z s'"
  shows "scalar_per_row n z"
proof -
  from assms(1) have "\<forall>x s z s'. batch x = n \<and> yields (cin_linear env x) s z s' \<longrightarrow> scalar_per_row n z"
    unfolding batch_preserving_def by (elim conjE)
  with assms(2,3) show ?thesis by blast
qed

lemma bp_SE:
  assumes "batch_preserving n env" and "batch x = n" and "yields (SE env x) s z s'"
  shows "batch z = n"
proof -
  from assms(1) have "\<forall>x s z s'. batch x = n \<and> yields (SE env x) s z s' \<longrightarrow> batch z = n"
    unfolding batch_preserving_def by (elim conjE)
  with assms(2,3) show ?thesis by blast
qed

lemma bp_Bilinear:
  assumes "batch_preserving n env" and "batch x = n" and "yields (Bilinear env x) s z s'"
  shows "batch z = n"
proof -
  from assms(1) have "\<forall>x s z s'. batch x = n \<and> yields (Bilinear env x) s z s' \<longrightarrow> batch z = n"
    unfolding batch_preserving_def by (elim conjE)
  with assms(2,3) show ?thesis by blast
qed

lemma bp_cat:
  assumes "batch_preserving n env" and "d = 1 \<or> d = - 1" and "list_all (\<lambda>t. batch t = n) ts"
    and "yields (torch_cat env ts d) s z s'"
  shows "batch z = n"
proof -
  from assms(1) have "\<forall>ts d s z s'. (d = 1 \<or> d = - 1) \<and> list_all (\<lambda>t. batch t = n) ts \<and>
      yields (torch_cat env ts d) s z s' \<longrightarrow> batch z = n"
    unfolding batch_preserving_def by (elim conjE)
  with assms(2,3,4) show ?thesis by blast
qed

lemma bp_split:
  assumes "batch_preserving n env" and "d = 1 \<or> d = - 1" and "batch x = n"
    and "yields (torch_split env x k d) s ts s'"
  shows "list_all (\<lambda>t. batch t = n) ts"
proof -
  from assms(1) have "\<forall>x k d s ts s'. (d = 1 \<or> d = - 1) \<and> batch x = n \<and>
      yields (torch_split env x k d) s ts s' \<longrightarrow> list_all (\<lambda>t. batch t = n) ts"
    unfolding batch_preserving_def by (elim conjE)
  with assms(2,3,4) show ?thesis by blast
qed

lemma DCN_final_logit_shape:
  assumes bp: "batch_preserving n env" and X: "batch X = n"
    and r: "fst (DCN_forward env dcn X s0) = Inr y"
  shows "\<exists>z s s'. scalar_per_row n z \<and> yields (out env z) s y s'"
proof -
  from DCN_forward_trace [OF r] obtain sp de s1 dnn_input s2 z s6 s7
    where i: "yields (input_from_feature_columns env X) s0 (sp, de) s1"
      and c: "yields (combined_dnn_input env sp de) s1 dnn_input s2"
      and o: "yields (out env z) s6 y s7"
      and br: "(\<exists>deep_out s3 cross_out s4 stack_out s5.
               yields (dnn env dnn_input) s2 deep_out s3 \<and>
               yields (crossnet env dnn_input) s3 cross_out s4 \<and>
               yields (torch_cat env [cross_out, deep_out] (- 1)) s4 stack_out s5 \<and>
               yields (dnn_linear env stack_out) s5 z s6) \<or>
            (\<exists>deep_out s3.
               yields (dnn env dnn_input) s2 deep_out s3 \<and>
               yields (dnn_linear env deep_out) s3 z s6) \<or>
            (\<exists>cross_out s3.
               yields (crossnet env dnn_input) s2 cross_out s3 \<and>
               yields (dnn_linear env cross_out) s3 z s6)"
    by blast
  from bp_input [OF bp X i] have sp: "list_all (\<lambda>t. batch t = n) sp"
    and de: "list_all (\<lambda>t. batch t = n) de"
    by simp_all
  from bp_combined [OF bp sp de c] have di: "batch dnn_input = n" .
  from br have "scalar_per_row n z"
  proof (elim disjE exE conjE)
    fix deep_out s3 cross_out s4 stack_out s5
    assume d: "yields (dnn env dnn_input) s2 deep_out s3"
      and x: "yields (crossnet env dnn_input) s3 cross_out s4"
      and k: "yields (torch_cat env [cross_out, deep_out] (- 1)) s4 stack_out s5"
      and l: "yields (dnn_linear env stack_out) s5 z s6"
    from bp_dnn [OF bp di d] bp_crossnet [OF bp di x]
    have "list_all (\<lambda>t. batch t = n) [cross_out, deep_out]"
      by simp
    from bp_cat [OF bp disjI2 [OF refl] this k] have "batch stack_out = n" .
    then show ?thesis
      by (rule bp_dnn_linear [OF bp _ l])
  next
    fix deep_out s3
    assume d: "yields (dnn env dnn_input) s2 deep_out s3"
      and l: "yields (dnn_linear env deep_out) s3 z s6"
    from bp_dnn [OF bp di d] show ?thesis
      by (rule bp_dnn_linear [OF bp _ l])
  next
    fix cross_out s3
    assume x: "yields (crossnet env dnn_input) s2 cross_out s3"
      and l: "yields (dnn_linear env cross_out) s3 z s6"
    from bp_crossnet [OF bp di x] show ?thesis
      by (rule bp_dnn_linear [OF bp _ l])
  qed
  with o show ?thesis by blast
qed

lemma xDeepFM_final_logit_shape:
  assumes bp: "batch_preserving n env" and X: "batch X = n"
    and r: "fst (xDeepFM_forward env xd X s0) = Inr y"
  shows "\<exists>z s s'. scalar_per_row n z \<and> yields (out env z) s y s'"
proof -
  from xDeepFM_forward_trace [OF r] obtain sp de s1 linear_logit s2 cin_input s3 cin_output s4
      cin_logit s5 dnn_input s6 dnn_output s7 dnn_logit s8 z s9
    where i: "yields (input_from_feature_columns env X) s0 (sp, de) s1"
      and l: "yields (linear_model env X) s1 linear_logit s2"
      and k: "yields (torch_cat env sp 1) s2 cin_input s3"
      and ci: "yields (cin env cin_input) s3 cin_output s4"
      and cl: "yields (cin_linear env cin_output) s4 cin_logit s5"
      and c: "yields (combined_dnn_input env sp de) s5 dnn_input s6"
      and d: "yields (dnn env dnn_input) s6 dnn_output s7"
      and dl: "yields (dnn_linear env dnn_output) s7 dnn_logit s8"
      and o: "yields (out env z) s8 y s9"
      and z: "z = linear_logit \<or> z = linear_logit + cin_logit \<or> z = linear_logit + dnn_logit \<or>
            z = linear_logit + dnn_logit + cin_logit"
    by blast
  from bp_input [OF bp X i] have sp: "list_all (\<lambda>t. batch t = n) sp"
    and de: "list_all (\<lambda>t. batch t = n) de"
    by simp_all
  from bp_linear_model [OF bp X l] have L: "scalar_per_row n linear_logit" .
  from bp_cat [OF bp disjI1 [OF refl] sp k] have "batch cin_input = n" .
  from bp_cin [OF bp this ci] have "batch cin_output = n" .
  from bp_cin_linear [OF bp this cl] have C: "scalar_per_row n cin_logit" .
  from bp_combined [OF bp sp de c] have "batch dnn_input = n" .
  from bp_dnn [OF bp this d] have "batch dnn_output = n" .
  from bp_dnn_linear [OF bp this dl] have D: "scalar_per_row n dnn_logit" .
  from z L C D have "scalar_per_row n z"
    by (auto intro: scalar_per_row_plus)
  with o show ?thesis by blast
qed

lemma FiBiNET_final_logit_shape:
  assumes bp: "batch_preserving n env" and X: "batch X = n"
    and r: "fst (FiBiNET_forward env fb X s0) = Inr y"
  shows "\<exists>z s s'. scalar_per_row n z \<and> yields (out env z) s y s'"
proof -
  from FiBiNET_forward_trace [OF r] obtain sp de s1 sparse_embedding_input s2 senet_output s3
      senet_bilinear_out s4 bilinear_out s5 linear_logit s6 cat_out s7 temp s8 dnn_input s9
      dnn_output s10 dnn_logit s11 z s12
    where i: "yields (input_from_feature_columns env X) s0 (sp, de) s1"
      and k: "yields (torch_cat env sp 1) s1 sparse_embedding_input s2"
      and se: "yields (SE env sparse_embedding_input) s2 senet_output s3"
      and b1: "yields (Bilinear env senet_output) s3 senet_bilinear_out s4"
      and b2: "yields (Bilinear env sparse_embedding_input) s4 bilinear_out s5"
      and l: "yields (linear_model env X) s5 linear_logit s6"
      and k2: "yields (torch_cat env [senet_bilinear_out, bilinear_out] 1) s6 cat_out s7"
      and sp2: "yields (torch_split env cat_out 1 1) s7 temp s8"
      and c: "yields (combined_dnn_input env temp de) s8 dnn_input s9"
      and d: "yields (dnn env dnn_input) s9 dnn_output s10"
      and dl: "yields (dnn_linear env dnn_output) s10 dnn_logit s11"
      and o: "yields (out env z) s11 y s12"
      and z: "z = linear_logit + dnn_logit \<or> z = dnn_logit \<or> z = linear_logit"
    by (elim exE conjE) (rule that, assumption+)
  from bp_input [OF bp X i] have sp: "list_all (\<lambda>t. batch t = n) sp"
    and de: "list_all (\<lambda>t. batch t = n) de"
    by simp_all
  from bp_cat [OF bp disjI1 [OF refl] sp k] have sei: "batch sparse_embedding_input = n" .
  from bp_SE [OF bp sei se] have "batch senet_output = n" .
  from bp_Bilinear [OF bp this b1] have sb: "batch senet_bilinear_out = n" .
  from bp_Bilinear [OF bp sei b2] have bo: "batch bilinear_out = n" .
  from bp_linear_model [OF bp X l] have L: "scalar_per_row n linear_logit" .
  from sb bo have "list_all (\<lambda>t. batch t = n) [senet_bilinear_out, bilinear_out]"
    by simp
  from bp_cat [OF bp disjI1 [OF refl] this k2] have "batch cat_out = n" .
  from bp_split [OF bp disjI1 [OF refl] this sp2] have "list_all (\<lambda>t. batch t = n) temp" .
  from bp_combined [OF bp this de c] have "batch dnn_input = n" .
  from bp_dnn [OF bp this d] have "batch dnn_output = n" .
  from bp_dnn_linear [OF bp this dl] have D: "scalar_per_row n dnn_logit" .
  from z L D have "scalar_per_row n z"
    by (auto intro: scalar_per_row_plus)
  with o show ?thesis by blast
qed

lemma binary_out:
  assumes "out env = (\<lambda>z s. (Inr (PredictionLayer ''binary'' z), s))"
    and "yields (out env z) s y s'"
  shows "y = PredictionLayer ''binary'' z"
  using assms by (simp add: yields_def)

lemma binary_prediction:
  assumes o: "out env = (\<lambda>z s. (Inr (PredictionLayer ''binary'' z), s))"
    and y: "\<exists>z s s'. scalar_per_row n z \<and> yields (out env z) s y s'"
  shows "scalar_per_row n y"
proof -
  from y obtain z s s' where z: "scalar_per_row n z" and "yields (out env z) s y s'"
    by blast
  with o have "y = PredictionLayer ''binary'' z"
    by (simp add: binary_out)
  with z show ?thesis
    by (simp add: scalar_per_row_PredictionLayer)
qed

lemma batch_preserving_binary_layers: "batch_preserving n binary_layers"
  by (auto simp: batch_preserving_def binary_layers_def yields_def first_of_def scalar_per_row_def
        zero_logits_def well_formed_def batch_def list_all_iff split: list.splits)
     (metis list.set_intros(1) set_append)+

text \<open>
  C9. For every assembler whose output transform is the prediction layer of the binary
  task, every value of a returned prediction lies in \<open>[0, 1]\<close>: the final logit is passed
  through the sigmoid. The prediction is one scalar for each row of the input batch \<open>X\<close>
  whenever the collaborators keep the batch axis of a batch of that size.
\<close>

theorem binary_output_in_unit_interval:
  "(out env = (\<lambda>z s. (Inr (PredictionLayer ''binary'' z), s)) \<and>
    fst (DCN_forward env dcn X s) = Inr y \<longrightarrow>
      in_unit_interval y \<and> (batch_preserving (batch X) env \<longrightarrow> scalar_per_row (batch X) y)) \<and>
   (out env = (\<lambda>z s. (Inr (PredictionLayer ''binary'' z), s)) \<and>
    fst (xDeepFM_forward env xd X s) = Inr y \<longrightarrow>
      in_unit_interval y \<and> (batch_preserving (batch X) env \<longrightarrow> scalar_per_row (batch X) y)) \<and>
   (out env = (\<lambda>z s. (Inr (PredictionLayer ''binary'' z), s)) \<and>
    fst (FiBiNET_forward env fb X s) = Inr y \<longrightarrow>
      in_unit_interval y \<and> (batch_preserving (batch X) env \<longrightarrow> scalar_per_row (batch X) y))"
proof (intro conjI impI; elim conjE)
  assume o: "out env = (\<lambda>z s. (Inr (PredictionLayer ''binary'' z), s))"
    and r: "fst (DCN_forward env dcn X s) = Inr y"
  from DCN_forward_trace [OF r] obtain z sa sb where "yields (out env z) sa y sb"
    by blast
  from binary_out [OF o this] show "in_unit_interval y"
    by (simp add: in_unit_interval_PredictionLayer)
  assume bp: "batch_preserving (batch X) env"
  from DCN_final_logit_shape [OF bp refl r] show "scalar_per_row (batch X) y"
    by (rule binary_prediction [OF o])
next
  assume o: "out env = (\<lambda>z s. (Inr (PredictionLayer ''binary'' z), s))"
    and r: "fst (xDeepFM_forward env xd X s) = Inr y"
  from xDeepFM_forward_trace [OF r] obtain z sa sb where "yields (out env z) sa y sb"
    by blast
  from binary_out [OF o this] show "in_unit_interval y"
    by (simp add: in_unit_interval_PredictionLayer)
  assume bp: "batch_preserving (batch X) env"
  from xDeepFM_final_logit_shape [OF bp refl r] show "scalar_per_row (batch X) y"
    by (rule binary_prediction [OF o])
next
  assume o: "out env = (\<lambda>z s. (Inr (PredictionLayer ''binary'' z), s))"
    and r: "fst (FiBiNET_forward env fb X s) = Inr y"
  from FiBiNET_forward_trace [OF r] obtain z sa sb where "yields (out env z) sa y sb"
    by (elim exE conjE) (rule that)
  from binary_out [OF o this] show "in_unit_interval y"
    by (simp add: in_unit_interval_PredictionLayer)
  assume bp: "batch_preserving (batch X) env"
  from FiBiNET_final_logit_shape [OF bp refl r] show "scalar_per_row (batch X) y"
    by (rule binary_prediction [OF o])
qed

text \<open>
  The theorem at a batch of three rows and layers that keep the batch axis, with all-zero
  logits: every assembler returns \<open>sigmoid 0 = 1/2\<close> for each of the three rows.
\<close>

theorem binary_output_in_unit_interval_witness:
  "fst (DCN_forward binary_layers \<lparr>modules = [], DCN.dnn_hidden_units = [32], cross_num = 0\<rparr>
         (Tensor 2 [[1, 2], [3, 4], [5, 6]]) 0) = Inr (Tensor 1 [[1 / 2], [1 / 2], [1 / 2]]) \<and>
   fst (xDeepFM_forward binary_layers
         \<lparr>modules = [], xDeepFM.dnn_hidden_units = [256, 256], cin_layer_size = [128, 128],
          featuremap_num = 192\<rparr> (Tensor 2 [[1, 2], [3, 4], [5, 6]]) 0)
     = Inr (Tensor 1 [[1 / 2], [1 / 2], [1 / 2]]) \<and>
   fst (FiBiNET_forward binary_layers
         \<lparr>modules = [], linear_feature_columns = [SparseFeat], dnn_feature_columns = [SparseFeat],
          filed_size = 1\<rparr> (Tensor 2 [[1, 2], [3, 4], [5, 6]]) 0)
     = Inr (Tensor 1 [[1 / 2], [1 / 2], [1 / 2]]) \<and>
   in_unit_interval (Tensor 1 [[1 / 2], [1 / 2], [1 / 2]]) \<and>
   scalar_per_row 3 (Tensor 1 [[1 / 2], [1 / 2], [1 / 2]])"
proof -
  let ?X = "Tensor 2 [[1, 2], [3, 4], [5, 6]]" and ?y = "Tensor 1 [[1 / 2], [1 / 2], [1 / 2]]"
  let ?dcn = "\<lparr>modules = [], DCN.dnn_hidden_units = [32], cross_num = 0\<rparr>"
  let ?xd = "\<lparr>modules = [], xDeepFM.dnn_hidden_units = [256, 256], cin_layer_size = [128, 128],
          featuremap_num = 192\<rparr>"
  let ?fb = "\<lparr>modules = [], linear_feature_columns = [SparseFeat],
          dnn_feature_columns = [SparseFeat], filed_size = 1\<rparr>"
  have o: "out binary_layers = (\<lambda>z s. (Inr (PredictionLayer ''binary'' z), s))"
    by (simp add: binary_layers_def)
  have h: "batch_preserving (batch ?X) (binary_layers :: (nat, tensor, unit) layers)"
    by (rule batch_preserving_binary_layers)
  have d: "fst (DCN_forward binary_layers ?dcn ?X 0) = Inr ?y"
    by (simp add: DCN_forward_def binary_layers_def then_do_def call_def PredictionLayer_def
        zero_logits_def first_of_def sigmoid_def)
  have x: "fst (xDeepFM_forward binary_layers ?xd ?X 0) = Inr ?y"
    by (simp add: xDeepFM_forward_def binary_layers_def then_do_def call_def ret_def
        PredictionLayer_def zero_logits_def first_of_def sigmoid_def plus_tensor_def vadd_def
        well_formed_def batch_def)
  have f: "fst (FiBiNET_forward binary_layers ?fb ?X 0) = Inr ?y"
    by (simp add: FiBiNET_forward_def binary_layers_def then_do_def call_def ret_def
        PredictionLayer_def zero_logits_def first_of_def sigmoid_def plus_tensor_def vadd_def
        well_formed_def batch_def)
  have "out binary_layers = (\<lambda>z s. (Inr (PredictionLayer ''binary'' z), s)) \<and>
      fst (xDeepFM_forward binary_layers ?xd ?X 0) = Inr ?y \<longrightarrow>
        in_unit_interval ?y \<and>
        (batch_preserving (batch ?X) binary_layers \<longrightarrow> scalar_per_row (batch ?X) ?y)"
    by (rule binary_output_in_unit_interval [THEN conjunct2, THEN conjunct1])
  with o x h have "in_unit_interval ?y" and "scalar_per_row (batch ?X) ?y"
    by blast+
  then have "in_unit_interval ?y" and "scalar_per_row 3 ?y"
    by (simp_all add: batch_def numeral_3_eq_3)
  with d x f show ?thesis by blast
qed

end
